theory Spec2Isabelle
  imports Complex_Main
begin

text \<open>
  A model of \<^verbatim>\<open>app.py\<close>, the Streamlit script of Gemini StudyPal. The script is run from top
  to bottom at every user interaction; what survives between two runs is the session
  state and the store of \<^verbatim>\<open>st.cache_data\<close>. The model follows one session. The remote
  model, \<^verbatim>\<open>json.loads\<close> and \<^verbatim>\<open>Image.open\<close> are inputs: the first two are functions given
  to every definition that needs them, the third is recorded in each uploaded file.
  Display calls (\<^verbatim>\<open>st.header\<close>, \<^verbatim>\<open>st.warning\<close>, \<^verbatim>\<open>st.video\<close> ...) append an element to the screen
  and do not raise; \<^verbatim>\<open>time.sleep\<close> and the style sheet have no effect on the state.
  An exception that the script does not catch ends the run and is the first component
  of the result.
\<close>

section \<open>Values returned by json.loads\<close>

text \<open>
  The Python values that \<^verbatim>\<open>json.loads\<close> can return. \<open>JNull\<close> is Python's \<^verbatim>\<open>None\<close>:
  the source uses the same \<^verbatim>\<open>None\<close> for "no result" and for a parsed JSON null, and so
  does the model. An object is the list of its items in insertion order (keys distinct).
  A float is represented by its value; only whether it is zero is ever inspected.
\<close>

datatype json =
    JNull
  | JBool bool
  | JInt int
  | JFloat rat
  | JStr string
  | JArr "json list"
  | JObj "(string \<times> json) list"

datatype exn = KeyError string | TypeError | AttributeError

text \<open>Python truthiness, as tested by \<^verbatim>\<open>if flashcards:\<close> and \<^verbatim>\<open>if st.session_state.video_url:\<close>.\<close>

fun truthy :: "json \<Rightarrow> bool" where
  "truthy JNull = False"
| "truthy (JBool b) = b"
| "truthy (JInt n) = (n \<noteq> 0)"
| "truthy (JFloat r) = (r \<noteq> 0)"
| "truthy (JStr s) = (s \<noteq> [])"
| "truthy (JArr xs) = (xs \<noteq> [])"
| "truthy (JObj kvs) = (kvs \<noteq> [])"

fun is_prefix :: "string \<Rightarrow> string \<Rightarrow> bool" where
  "is_prefix [] ys = True"
| "is_prefix (x # xs) [] = False"
| "is_prefix (x # xs) (y # ys) = (x = y \<and> is_prefix xs ys)"

fun is_substring :: "string \<Rightarrow> string \<Rightarrow> bool" where
  "is_substring k [] = (k = [])"
| "is_substring k (c # cs) = (is_prefix k (c # cs) \<or> is_substring k cs)"

text \<open>\<^verbatim>\<open>k in v\<close> for a string \<open>k\<close>: key of a dict, element of a list, substring of a string,
  \<^verbatim>\<open>TypeError\<close> on everything else.\<close>

fun py_contains :: "string \<Rightarrow> json \<Rightarrow> exn + bool" where
  "py_contains k (JObj kvs) = Inr (k \<in> set (map fst kvs))"
| "py_contains k (JArr xs) = Inr (JStr k \<in> set xs)"
| "py_contains k (JStr s) = Inr (is_substring k s)"
| "py_contains k v = Inl TypeError"

text \<open>\<^verbatim>\<open>v[k]\<close> for a string \<open>k\<close>: only a dict can be indexed by a string.\<close>

fun py_getitem :: "json \<Rightarrow> string \<Rightarrow> exn + json" where
  "py_getitem (JObj kvs) k = (case map_of kvs k of None \<Rightarrow> Inl (KeyError k) | Some x \<Rightarrow> Inr x)"
| "py_getitem v k = Inl TypeError"

text \<open>Iteration, as \<^verbatim>\<open>enumerate(v)\<close> does it: a list gives its elements, a dict its keys, a
  string its characters; the other values are not iterable.\<close>

fun py_iter :: "json \<Rightarrow> exn + json list" where
  "py_iter (JArr xs) = Inr xs"
| "py_iter (JObj kvs) = Inr (map (\<lambda>kv. JStr (fst kv)) kvs)"
| "py_iter (JStr s) = Inr (map (\<lambda>c. JStr [c]) s)"
| "py_iter v = Inl TypeError"

text \<open>\<^verbatim>\<open>v.items()\<close>: only a dict has the method.\<close>

fun py_items :: "json \<Rightarrow> exn + (string \<times> json) list" where
  "py_items (JObj kvs) = Inr kvs"
| "py_items v = Inl AttributeError"

section \<open>URL cleaning\<close>

text \<open>
  \<^verbatim>\<open>clean_url = raw_url.strip()\<close> followed by \<^verbatim>\<open>re.sub(r'(^"|"$)', '', clean_url)\<close>.
  Characters are the code points below 256; \<open>py_isspace\<close> lists those that
  \<^verbatim>\<open>str.strip()\<close> removes.
\<close>

definition py_isspace :: "char \<Rightarrow> bool" where
  "py_isspace c = (of_char c \<in> set [9, 10, 11, 12, 13, 28, 29, 30, 31, 32, 133, 160 :: nat])"

definition py_strip :: "string \<Rightarrow> string" where
  "py_strip s = rev (dropWhile py_isspace (rev (dropWhile py_isspace s)))"

definition dquote :: char where
  "dquote = CHR 0x22"

definition newline :: char where
  "newline = CHR 0x0A"

text \<open>The \<^verbatim>\<open>"$\<close> alternative: a double quote at the very end, or just before a newline that
  ends the string.\<close>

definition sub_trailing_quote :: "string \<Rightarrow> string" where
  "sub_trailing_quote s =
     (if s \<noteq> [] \<and> last s = dquote then butlast s
      else if 2 \<le> length s \<and> last s = newline \<and> last (butlast s) = dquote
        then butlast (butlast s) @ [newline]
      else s)"

text \<open>The whole substitution: the \<^verbatim>\<open>^"\<close> alternative removes a double quote at position 0,
  then the scan goes on in the rest of the string.\<close>

definition re_sub_quotes :: "string \<Rightarrow> string" where
  "re_sub_quotes s =
     (case s of
        [] \<Rightarrow> []
      | c # cs \<Rightarrow> if c = dquote then sub_trailing_quote cs else c # sub_trailing_quote cs)"

definition clean_url :: "string \<Rightarrow> string" where
  "clean_url raw_url = re_sub_quotes (py_strip raw_url)"

section \<open>The cached generation call\<close>

datatype image = Image nat

datatype client = Client string

datatype part = ImagePart image | TextPart string

record request =
  model :: string
  contents :: "part list"
  system_instruction :: string
  response_mime_type :: string

text \<open>What \<^verbatim>\<open>_client.models.generate_content\<close> does: it raises, or it returns a response
  whose \<^verbatim>\<open>.text\<close> is a string or \<^verbatim>\<open>None\<close>. The remote model is a parameter: its answer may
  depend on the request and on how many calls were made before.\<close>

datatype response = Raises string | Responds "string option"

type_synonym remote = "nat \<Rightarrow> request \<Rightarrow> response"

text \<open>What \<^verbatim>\<open>json.loads\<close> does on a string: a value, a \<^verbatim>\<open>JSONDecodeError\<close>, or another
  exception. The parser is a parameter too.\<close>

datatype loaded = Loaded json | JSONDecodeError string | LoadsRaises string

type_synonym loads = "string \<Rightarrow> loaded"

text \<open>Formatted strings keep their pieces, so that no \<^verbatim>\<open>str()\<close> of a value is needed.\<close>

datatype frag = Lit string | Num nat | Val json

type_synonym fstring = "frag list"

datatype ui =
    St_title string
  | St_caption string
  | St_css
  | St_header string
  | St_subheader fstring
  | St_image string
  | St_info fstring
  | St_warning string
  | St_success fstring
  | St_error fstring
  | St_markdown fstring
  | St_expander fstring "ui list"
  | St_video json
  | St_spinner string
  | St_tabs "string list"

record session_state =
  ready :: "bool option"
  video_url :: "json option"
  video_search_query :: "json option"
  image_list :: "image list option"
  subject :: "string option"

text \<open>
  The state a script run works on: the session state (a field is \<open>None\<close> while its key is
  absent), the store of \<^verbatim>\<open>st.cache_data\<close>, the requests sent to the remote model so far,
  and the elements drawn in the current run.
\<close>

record world =
  session :: session_state
  cache :: "string \<times> string \<rightharpoonup> json"
  calls :: "request list"
  screen :: "ui list"

definition draw :: "ui \<Rightarrow> world \<Rightarrow> world" where
  "draw e w = w\<lparr>screen := screen w @ [e]\<rparr>"

definition mk_request :: "image list \<Rightarrow> string \<Rightarrow> string \<Rightarrow> request" where
  "mk_request images sys_instr prompt =
     \<lparr>model = ''gemini-2.5-flash'',
      contents = map ImagePart images @ [TextPart prompt],
      system_instruction = sys_instr,
      response_mime_type = ''application/json''\<rparr>"

text \<open>The body of \<^verbatim>\<open>generate_content\<close>, lines 107 to 135. Every exception raised inside the
  \<^verbatim>\<open>try\<close> is caught, so the body always returns a value.\<close>

definition generate_content_body ::
  "remote \<Rightarrow> loads \<Rightarrow> client option \<Rightarrow> image list \<Rightarrow> string \<Rightarrow> string \<Rightarrow> world \<Rightarrow> json \<times> world" where
  "generate_content_body R L client' images sys_instr prompt w =
     (case client' of
        None \<Rightarrow> (JNull, w)
      | Some c \<Rightarrow>
          let req = mk_request images sys_instr prompt;
              w1 = draw (St_spinner ''Analyzing your notes and generating materials...'')
                     (w\<lparr>calls := calls w @ [req]\<rparr>)
          in (case R (length (calls w)) req of
                Raises e \<Rightarrow>
                  (JNull, draw (St_error [Lit ''An API error occurred during content generation: '', Lit e]) w1)
              | Responds None \<Rightarrow>
                  (JNull, draw (St_error [Lit ''An API error occurred during content generation: '',
                                          Lit ''TypeError'']) w1)
              | Responds (Some t) \<Rightarrow>
                  (case L t of
                     Loaded v \<Rightarrow> (v, w1)
                   | JSONDecodeError e \<Rightarrow>
                       (JNull,
                        draw (St_error [Lit ''JSON Decoding Error: '', Lit e])
                          (draw (St_error [Lit ''Failed to decode JSON response from API. Expected JSON. Raw text received: '',
                                           Lit (take 200 t), Lit ''...'']) w1))
                   | LoadsRaises e \<Rightarrow>
                       (JNull, draw (St_error [Lit ''An API error occurred during content generation: '', Lit e]) w1))))"

text \<open>
  The decorator \<^verbatim>\<open>@st.cache_data\<close>: the key is made of the arguments whose names do not start
  with an underscore, here \<^verbatim>\<open>system_instruction\<close> and \<^verbatim>\<open>prompt\<close>; on a hit the stored value
  is returned and the body does not run; on a miss the body runs and whatever it returns
  is stored.
\<close>

definition generate_content ::
  "remote \<Rightarrow> loads \<Rightarrow> client option \<Rightarrow> image list \<Rightarrow> string \<Rightarrow> string \<Rightarrow> world \<Rightarrow> json \<times> world" where
  "generate_content R L client' images sys_instr prompt w =
     (case cache w (sys_instr, prompt) of
        Some v \<Rightarrow> (v, w)
      | None \<Rightarrow>
          (case generate_content_body R L client' images sys_instr prompt w of
             (v, w') \<Rightarrow> (v, w'\<lparr>cache := (cache w')((sys_instr, prompt) \<mapsto> v)\<rparr>)))"

text \<open>\<^verbatim>\<open>st.cache_data.clear()\<close>\<close>

definition cache_clear :: "world \<Rightarrow> world" where
  "cache_clear w = w\<lparr>cache := Map.empty\<rparr>"

section \<open>The four panels\<close>

subsection \<open>Flashcards\<close>

definition fc_sys_instruction :: "string \<Rightarrow> string" where
  "fc_sys_instruction subj =
     ''You are an expert study assistant for '' @ subj @ ''. Analyze the images and '' @
     ''extract key terms or concepts. Generate a flashcard for each. '' @
     ''Output must be a strict JSON array of objects with keys 'question' and 'answer'.''"

definition fc_prompt :: string where
  "fc_prompt = ''Generate a comprehensive set of flashcards based on the image content.''"

text \<open>The loop \<^verbatim>\<open>for i, card in enumerate(flashcards)\<close>: the elements drawn, and the exception
  that ended the loop, if any. The expander is opened before its body reads
  \<^verbatim>\<open>card['answer']\<close>.\<close>

fun render_cards :: "nat \<Rightarrow> json list \<Rightarrow> ui list \<times> exn option" where
  "render_cards i [] = ([], None)"
| "render_cards i (c # cards) =
     (case py_getitem c ''question'' of
        Inl e \<Rightarrow> ([], Some e)
      | Inr q \<Rightarrow>
          (case py_getitem c ''answer'' of
             Inl e \<Rightarrow> ([St_expander [Lit ''Question '', Num (i + 1), Lit '': '', Val q] []], Some e)
           | Inr a \<Rightarrow>
               (case render_cards (i + 1) cards of
                  (es, r) \<Rightarrow>
                    (St_expander [Lit ''Question '', Num (i + 1), Lit '': '', Val q]
                       [St_markdown [Lit ''Answer: '', Val a]] # es, r))))"

definition render_flashcards :: "json \<Rightarrow> ui list \<times> exn option" where
  "render_flashcards flashcards =
     (if truthy flashcards then
        (case py_iter flashcards of
           Inl e \<Rightarrow> ([], Some e)
         | Inr cards \<Rightarrow>
             (case render_cards 0 cards of
                (es, Some e) \<Rightarrow> (es, Some e)
              | (es, None) \<Rightarrow> (es @ [St_success [Lit ''Flashcards generated successfully.'']], None)))
      else ([St_warning ''Could not generate flashcards.''], None))"

definition draw_all :: "ui list \<Rightarrow> world \<Rightarrow> world" where
  "draw_all es w = w\<lparr>screen := screen w @ es\<rparr>"

definition flashcard_tab ::
  "remote \<Rightarrow> loads \<Rightarrow> client option \<Rightarrow> image list \<Rightarrow> string \<Rightarrow> world \<Rightarrow> exn option \<times> world" where
  "flashcard_tab R L client' images subj w =
     (case generate_content R L client' images (fc_sys_instruction subj) fc_prompt
             (draw (St_header ''Flashcard Set'') w) of
        (flashcards, w1) \<Rightarrow>
          (case render_flashcards flashcards of (es, r) \<Rightarrow> (r, draw_all es w1)))"

subsection \<open>Quiz\<close>

definition quiz_sys_instruction :: "string \<Rightarrow> string" where
  "quiz_sys_instruction subj =
     ''You are a quiz master for '' @ subj @ ''. Create a 10-question multiple-choice quiz '' @
     ''based on the images. Each question must have 4 options (A, B, C, D) and a correct answer. '' @
     ''Output must be a strict JSON array of objects with keys: 'question', 'options' (object mapping A-D to choices), 'correct_answer', and 'explanation'.''"

definition quiz_prompt :: string where
  "quiz_prompt = ''Generate a challenging 10-question multiple-choice quiz.''"

fun join_lines :: "fstring list \<Rightarrow> fstring" where
  "join_lines [] = []"
| "join_lines [x] = x"
| "join_lines (x # y # ys) = x @ [Lit [newline]] @ join_lines (y # ys)"

definition options_str :: "(string \<times> json) list \<Rightarrow> fstring" where
  "options_str items =
     join_lines (map (\<lambda>kv. [Lit ''- **'', Lit (fst kv), Lit ''**: '', Val (snd kv)]) items)"

fun render_questions :: "nat \<Rightarrow> json list \<Rightarrow> ui list \<times> exn option" where
  "render_questions i [] = ([], None)"
| "render_questions i (q # qs) =
     (case py_getitem q ''question'' of
        Inl e \<Rightarrow> ([], Some e)
      | Inr qu \<Rightarrow>
          (case py_getitem q ''options'' of
             Inl e \<Rightarrow> ([St_subheader [Lit ''Question '', Num (i + 1), Lit '': '', Val qu]], Some e)
           | Inr opts \<Rightarrow>
               (case py_items opts of
                  Inl e \<Rightarrow> ([St_subheader [Lit ''Question '', Num (i + 1), Lit '': '', Val qu]], Some e)
                | Inr items \<Rightarrow>
                    (case py_getitem q ''correct_answer'' of
                       Inl e \<Rightarrow>
                         ([St_subheader [Lit ''Question '', Num (i + 1), Lit '': '', Val qu],
                           St_markdown (options_str items),
                           St_expander [Lit ''Reveal Answer''] []], Some e)
                     | Inr ca \<Rightarrow>
                         (case py_getitem q ''explanation'' of
                            Inl e \<Rightarrow>
                              ([St_subheader [Lit ''Question '', Num (i + 1), Lit '': '', Val qu],
                                St_markdown (options_str items),
                                St_expander [Lit ''Reveal Answer'']
                                  [St_success [Lit ''Correct Answer: **'', Val ca, Lit ''**'']]], Some e)
                          | Inr ex \<Rightarrow>
                              (case render_questions (i + 1) qs of
                                 (es, r) \<Rightarrow>
                                   ([St_subheader [Lit ''Question '', Num (i + 1), Lit '': '', Val qu],
                                     St_markdown (options_str items),
                                     St_expander [Lit ''Reveal Answer'']
                                       [St_success [Lit ''Correct Answer: **'', Val ca, Lit ''**''],
                                        St_info [Lit ''Explanation: '', Val ex]]] @ es, r)))))))"

definition render_quiz :: "json \<Rightarrow> ui list \<times> exn option" where
  "render_quiz quiz =
     (if truthy quiz then
        (case py_iter quiz of
           Inl e \<Rightarrow> ([], Some e)
         | Inr qs \<Rightarrow>
             (case render_questions 0 qs of
                (es, Some e) \<Rightarrow> (es, Some e)
              | (es, None) \<Rightarrow> (es @ [St_success [Lit ''Quiz generated successfully.'']], None)))
      else ([St_warning ''Could not generate the quiz.''], None))"

definition quiz_tab ::
  "remote \<Rightarrow> loads \<Rightarrow> client option \<Rightarrow> image list \<Rightarrow> string \<Rightarrow> world \<Rightarrow> exn option \<times> world" where
  "quiz_tab R L client' images subj w =
     (case generate_content R L client' images (quiz_sys_instruction subj) quiz_prompt
             (draw (St_header ''Multiple-Choice Quiz'') w) of
        (quiz, w1) \<Rightarrow>
          (case render_quiz quiz of (es, r) \<Rightarrow> (r, draw_all es w1)))"

subsection \<open>Explainer\<close>

definition solver_sys_instruction :: "string \<Rightarrow> string" where
  "solver_sys_instruction subj =
     ''You are a helpful tutor for '' @ subj @ ''. Analyze the images for any complex concepts or '' @
     ''mathematical problems. If a problem is present, provide a clear, numbered step-by-step solution. '' @
     ''If concepts are present, provide a clear, simple explanation for one of the core concepts. '' @
     ''Output must be a strict JSON object with a single key: 'tutor_response', '' @
     ''containing the full text of the solution or explanation, formatted in markdown (use **bold** and steps).''"

definition solver_prompt :: string where
  "solver_prompt =
     ''Analyze the images and either (1) pick a difficult concept and explain it simply and clearly, '' @
     ''or (2) solve the most prominent problem shown, providing a clear, numbered, step-by-step solution.''"

definition render_explainer :: "json \<Rightarrow> ui list \<times> exn option" where
  "render_explainer solver_data =
     (if truthy solver_data then
        (case py_contains ''tutor_response'' solver_data of
           Inl e \<Rightarrow> ([], Some e)
         | Inr True \<Rightarrow>
             (case py_getitem solver_data ''tutor_response'' of
                Inl e \<Rightarrow> ([St_info [Lit ''Tutor's Analysis:'']], Some e)
              | Inr t \<Rightarrow>
                  ([St_info [Lit ''Tutor's Analysis:''], St_markdown [Val t],
                    St_success [Lit ''Explainer generated successfully.'']], None))
         | Inr False \<Rightarrow> ([St_warning ''Could not generate the Explainer.''], None))
      else ([St_warning ''Could not generate the Explainer.''], None))"

definition explainer_tab ::
  "remote \<Rightarrow> loads \<Rightarrow> client option \<Rightarrow> image list \<Rightarrow> string \<Rightarrow> world \<Rightarrow> exn option \<times> world" where
  "explainer_tab R L client' images subj w =
     (case generate_content R L client' images (solver_sys_instruction subj) solver_prompt
             (draw (St_header ''Step-by-Step Problem Solver & Explainer'') w) of
        (solver_data, w1) \<Rightarrow>
          (case render_explainer solver_data of (es, r) \<Rightarrow> (r, draw_all es w1)))"

subsection \<open>Video tutor\<close>

definition video_sys_instruction :: "string \<Rightarrow> string" where
  "video_sys_instruction subj =
     ''You are an expert video suggester for '' @ subj @ ''. Analyze the images and '' @
     ''identify the single most complex or interesting concept that would benefit from a video explanation. '' @
     ''Search YouTube and provide the URL for the best, most relevant educational video. '' @
     ''Output must be a strict JSON object with keys: 'video_search_query' (the topic you searched for) and 'video_url' (the full YouTube URL).''"

definition video_prompt :: string where
  "video_prompt =
     ''Identify the core concept and provide the best educational YouTube video URL for that concept.''"

definition video_warning :: ui where
  "video_warning = St_warning ''Could not identify a topic or find a video URL. Try again.''"

text \<open>Lines 312 to 329: what is done with the value the video call returned. The two
  session fields are written one after the other, with no statement that can raise in
  between other than the second read of the payload.\<close>

definition store_video :: "json \<Rightarrow> world \<Rightarrow> exn option \<times> world" where
  "store_video video_data w =
     (if truthy video_data then
        (case py_contains ''video_url'' video_data of
           Inl e \<Rightarrow> (Some e, w)
         | Inr False \<Rightarrow> (None, draw video_warning w)
         | Inr True \<Rightarrow>
             (case py_contains ''video_search_query'' video_data of
                Inl e \<Rightarrow> (Some e, w)
              | Inr False \<Rightarrow> (None, draw video_warning w)
              | Inr True \<Rightarrow>
                  (case py_getitem video_data ''video_url'' of
                     Inl e \<Rightarrow> (Some e, w)
                   | Inr (JStr raw_url) \<Rightarrow>
                       let w1 = w\<lparr>session := (session w)\<lparr>video_url := Some (JStr (clean_url raw_url))\<rparr>\<rparr>
                       in (case py_getitem video_data ''video_search_query'' of
                             Inl e \<Rightarrow> (Some e, w1)
                           | Inr q \<Rightarrow>
                               (None,
                                draw_all
                                  [St_subheader [Lit ''Video suggested for: **'', Val q, Lit ''**''],
                                   St_video (JStr (clean_url raw_url)),
                                   St_success [Lit ''Video embedded successfully.'']]
                                  (w1\<lparr>session := (session w1)\<lparr>video_search_query := Some q\<rparr>\<rparr>)))
                   | Inr other \<Rightarrow> (Some AttributeError, w))))
      else (None, draw video_warning w))"

definition video_tab ::
  "remote \<Rightarrow> loads \<Rightarrow> client option \<Rightarrow> image list \<Rightarrow> string \<Rightarrow> world \<Rightarrow> exn option \<times> world" where
  "video_tab R L client' images subj w =
     (let w0 = draw (St_header ''Video Tutor'') w in
      case video_url (session w0) of
        None \<Rightarrow> (Some AttributeError, w0)
      | Some url \<Rightarrow>
          if truthy url then
            (case video_search_query (session w0) of
               None \<Rightarrow> (Some AttributeError, w0)
             | Some search_query \<Rightarrow>
                 (None,
                  draw_all
                    [St_subheader [Lit ''Video suggested for: **'', Val search_query, Lit ''**''],
                     St_video url,
                     St_success [Lit ''Video embedded from a previous analysis.'']] w0))
          else
            (case generate_content R L client' images (video_sys_instruction subj) video_prompt w0 of
               (video_data, w1) \<Rightarrow> store_video video_data w1))"

section \<open>One run of the script\<close>

datatype opened = Opens image | OpenRaises string

record upfile =
  file_name :: string
  pil_open :: opened

text \<open>What the user did before this run, and the API key found in the environment.\<close>

record inputs =
  api_key :: "string option"
  uploaded_files :: "upfile list option"
  subject_input :: string
  button :: bool

text \<open>The list comprehension \<^verbatim>\<open>[Image.open(file) for file in uploaded_files]\<close>: the first
  file that does not open ends it with its exception.\<close>

fun open_all :: "upfile list \<Rightarrow> string + image list" where
  "open_all [] = Inr []"
| "open_all (f # fs) =
     (case pil_open f of
        OpenRaises e \<Rightarrow> Inl e
      | Opens img \<Rightarrow> (case open_all fs of Inl e \<Rightarrow> Inl e | Inr imgs \<Rightarrow> Inr (img # imgs)))"

text \<open>Lines 142 to 147.\<close>

definition init_session :: "session_state \<Rightarrow> session_state" where
  "init_session s =
     (let s1 = (if ready s = None then s\<lparr>ready := Some False\<rparr> else s);
          s2 = (if video_url s1 = None then s1\<lparr>video_url := Some JNull\<rparr> else s1)
      in if video_search_query s2 = None then s2\<lparr>video_search_query := Some JNull\<rparr> else s2)"

text \<open>Lines 179 to 191, run when the button was clicked.\<close>

definition analyze_trigger :: "upfile list \<Rightarrow> string \<Rightarrow> world \<Rightarrow> world" where
  "analyze_trigger files subj_in w =
     (let w1 = cache_clear w;
          w2 = w1\<lparr>session := (session w1)\<lparr>video_url := Some JNull, video_search_query := Some JNull\<rparr>\<rparr>
      in (case open_all files of
            Inl e \<Rightarrow>
              (let w3 = draw (St_error [Lit ''Error opening uploaded image files: '', Lit e]) w2
               in w3\<lparr>session := (session w3)\<lparr>image_list := Some [], subject := Some subj_in, ready := Some True\<rparr>\<rparr>)
          | Inr imgs \<Rightarrow>
              w2\<lparr>session := (session w2)\<lparr>image_list := Some imgs, subject := Some subj_in, ready := Some True\<rparr>\<rparr>))"

text \<open>Lines 194 to 331: the four panels, one after the other. An exception that a panel
  does not catch ends the run.\<close>

definition results_tabs :: "remote \<Rightarrow> loads \<Rightarrow> client option \<Rightarrow> world \<Rightarrow> exn option \<times> world" where
  "results_tabs R L client' w =
     (case image_list (session w) of
        None \<Rightarrow> (Some AttributeError, w)
      | Some images \<Rightarrow>
          (case subject (session w) of
             None \<Rightarrow> (Some AttributeError, w)
           | Some subj \<Rightarrow>
               (case flashcard_tab R L client' images subj
                       (draw (St_tabs [''Flashcards'', ''Quiz'', ''Explainer'', ''Video Tutor'']) w) of
                  (Some e, w1) \<Rightarrow> (Some e, w1)
                | (None, w1) \<Rightarrow>
                    (case quiz_tab R L client' images subj w1 of
                       (Some e, w2) \<Rightarrow> (Some e, w2)
                     | (None, w2) \<Rightarrow>
                         (case explainer_tab R L client' images subj w2 of
                            (Some e, w3) \<Rightarrow> (Some e, w3)
                          | (None, w3) \<Rightarrow> video_tab R L client' images subj w3)))))"

definition get_client :: "string option \<Rightarrow> client option" where
  "get_client key = (case key of None \<Rightarrow> None | Some k \<Rightarrow> if k = [] then None else Some (Client k))"

definition sidebar :: "inputs \<Rightarrow> world \<Rightarrow> world" where
  "sidebar inp w =
     (let w1 = draw (St_header ''Upload Notes'') w in
      case uploaded_files inp of
        None \<Rightarrow> w1
      | Some files \<Rightarrow>
          if files = [] then w1
          else draw_all (map (\<lambda>f. St_image (file_name f)) files)
                 (draw (St_subheader [Lit ''Notes Preview'']) w1))"

text \<open>The whole script, run once from top to bottom on the state left by the run before.
  The screen is drawn anew. The result is the exception that ended the run, if any, and
  the state the run leaves.\<close>

definition run_pass :: "remote \<Rightarrow> loads \<Rightarrow> inputs \<Rightarrow> world \<Rightarrow> exn option \<times> world" where
  "run_pass R L inp w =
     (let client' = get_client (api_key inp);
          w1 = w\<lparr>screen := (if client' = None
                             then [St_error [Lit ''GEMINI_API_KEY not found. Please set it in the .env file.'']]
                             else [])\<rparr>;
          w2 = draw St_css
                 (draw (St_caption ''Use Gemini StudyPal to create flashcards, quizzes, and explanations from your notes.'')
                    (draw (St_title ''Your Gemini StudyPal'') w1));
          w3 = w2\<lparr>session := init_session (session w2)\<rparr>;
          w4 = sidebar inp w3
      in case uploaded_files inp of
           None \<Rightarrow>
             (None, draw (St_info [Lit ''Please upload one or more images of your notes or textbook to begin.'']) w4)
         | Some files \<Rightarrow>
             if files = [] then
               (None, draw (St_info [Lit ''Please upload one or more images of your notes or textbook to begin.'']) w4)
             else if client' = None then (None, w4)
             else
               (let w5 = (if button inp then analyze_trigger files (subject_input inp) w4 else w4) in
                case ready (session w5) of
                  None \<Rightarrow> (Some AttributeError, w5)
                | Some False \<Rightarrow> (None, w5)
                | Some True \<Rightarrow> results_tabs R L client' w5))"

text \<open>A new session: no key in the session state, nothing cached, nothing sent.\<close>

definition new_world :: world where
  "new_world =
     \<lparr>session = \<lparr>ready = None, video_url = None, video_search_query = None,
                  image_list = None, subject = None\<rparr>,
      cache = Map.empty, calls = [], screen = []\<rparr>"

text \<open>
  The states a session can be in. \<^verbatim>\<open>st.cache_data\<close> is one store for the whole process:
  between two runs of this session, other sessions may fill it and clear it, and send
  requests of their own to the remote model. \<open>reachable\<close> allows for that: its third rule
  replaces the cache by any other and appends any requests. The session state belongs to
  the session alone.
\<close>

inductive reachable :: "remote \<Rightarrow> loads \<Rightarrow> world \<Rightarrow> bool" for R :: remote and L :: loads where
  reachable_new: "reachable R L new_world"
| reachable_pass: "reachable R L w \<Longrightarrow> run_pass R L inp w = (r, w') \<Longrightarrow> reachable R L w'"
| reachable_others: "reachable R L w \<Longrightarrow> reachable R L (w\<lparr>cache := m, calls := calls w @ cs\<rparr>)"

text \<open>The states of a session that is alone in its process: nothing but its own runs
  touches the cache.\<close>

inductive reachable_alone :: "remote \<Rightarrow> loads \<Rightarrow> world \<Rightarrow> bool" for R :: remote and L :: loads where
  alone_new: "reachable_alone R L new_world"
| alone_pass: "reachable_alone R L w \<Longrightarrow> run_pass R L inp w = (r, w') \<Longrightarrow> reachable_alone R L w'"

section \<open>Notions used in the statements\<close>

text \<open>The value the body of \<open>generate_content\<close> returns for an answer of the remote model
  (lines 126 to 135): the parsed value, or \<^verbatim>\<open>None\<close> for every failure.\<close>

definition decode :: "loads \<Rightarrow> response \<Rightarrow> json" where
  "decode L resp =
     (case resp of
        Raises e \<Rightarrow> JNull
      | Responds None \<Rightarrow> JNull
      | Responds (Some t) \<Rightarrow>
          (case L t of Loaded v \<Rightarrow> v | JSONDecodeError e \<Rightarrow> JNull | LoadsRaises e \<Rightarrow> JNull))"

text \<open>What a call of \<open>generate_content\<close> does to the session state, the cache and the list of
  requests, whatever is drawn before or after it.\<close>

definition gen_rel ::
  "remote \<Rightarrow> loads \<Rightarrow> client option \<Rightarrow> image list \<Rightarrow> string \<Rightarrow> string \<Rightarrow> world \<Rightarrow> json \<Rightarrow> world \<Rightarrow> bool" where
  "gen_rel R L c images si p w v w1 \<longleftrightarrow>
     session w1 = session w \<and>
     (case cache w (si, p) of
        Some v' \<Rightarrow> v = v' \<and> cache w1 = cache w \<and> calls w1 = calls w
      | None \<Rightarrow>
          cache w1 = (cache w)((si, p) \<mapsto> v) \<and>
          (case c of
             None \<Rightarrow> v = JNull \<and> calls w1 = calls w
           | Some k \<Rightarrow>
               calls w1 = calls w @ [mk_request images si p] \<and>
               v = decode L (R (length (calls w)) (mk_request images si p))))"

text \<open>The image list that the button stores: the opened images, or nothing when a file
  did not open.\<close>

definition opened_images :: "upfile list \<Rightarrow> image list" where
  "opened_images files = (case open_all files of Inl e \<Rightarrow> [] | Inr imgs \<Rightarrow> imgs)"

text \<open>The two video fields at the end of a run: both present; \<^verbatim>\<open>None\<close> together, or a string
  for the URL with whatever was stored as the search query. \<open>video_fields_start\<close> also
  allows the new session, where both keys are absent.\<close>

definition video_fields_ok :: "session_state \<Rightarrow> bool" where
  "video_fields_ok s =
     (case video_url s of
        None \<Rightarrow> False
      | Some JNull \<Rightarrow> video_search_query s = Some JNull
      | Some (JStr u) \<Rightarrow> video_search_query s \<noteq> None
      | Some other \<Rightarrow> False)"

definition video_fields_start :: "session_state \<Rightarrow> bool" where
  "video_fields_start s = ((video_url s = None \<and> video_search_query s = None) \<or> video_fields_ok s)"

text \<open>What one run may do to the two video fields, from the session state \<open>s0\<close> it starts
  with (after lines 142 to 147) to the state \<open>w'\<close> it leaves: it leaves both as they were, or
  it leaves both \<^verbatim>\<open>None\<close>, or it leaves both written from one payload, which is the value
  cached for the video request: the cleaned \<^verbatim>\<open>video_url\<close> of the payload and its
  \<^verbatim>\<open>video_search_query\<close>, whatever that value is.\<close>

definition video_fields_step :: "session_state \<Rightarrow> world \<Rightarrow> bool" where
  "video_fields_step s0 w' \<longleftrightarrow>
     (video_url (session w') = video_url s0 \<and>
      video_search_query (session w') = video_search_query s0) \<or>
     (video_url (session w') = Some JNull \<and> video_search_query (session w') = Some JNull) \<or>
     (\<exists>subj v raw_url q.
        subject (session w') = Some subj \<and>
        cache w' (video_sys_instruction subj, video_prompt) = Some v \<and>
        py_getitem v ''video_url'' = Inr (JStr raw_url) \<and>
        py_getitem v ''video_search_query'' = Inr q \<and>
        video_url (session w') = Some (JStr (clean_url raw_url)) \<and>
        video_search_query (session w') = Some q)"

text \<open>The requests of the four panels, in the order of the script, and the prompts that a
  list of requests ends with.\<close>

definition four_requests :: "image list \<Rightarrow> string \<Rightarrow> request list" where
  "four_requests images subj =
     [mk_request images (fc_sys_instruction subj) fc_prompt,
      mk_request images (quiz_sys_instruction subj) quiz_prompt,
      mk_request images (solver_sys_instruction subj) solver_prompt,
      mk_request images (video_sys_instruction subj) video_prompt]"

definition prompts_sent :: "request list \<Rightarrow> part list" where
  "prompts_sent cs = map (\<lambda>q. last (contents q)) cs"

text \<open>Every cached value is the decoded answer to a request that was sent with the images
  \<open>imgs\<close>; \<open>cache_fresh\<close> says so for the image list of the session, and that nothing is cached
  while the session has none.\<close>

definition fresh_for :: "remote \<Rightarrow> loads \<Rightarrow> image list \<Rightarrow> world \<Rightarrow> bool" where
  "fresh_for R L imgs w \<longleftrightarrow>
     (\<forall>si p v. cache w (si, p) = Some v \<longrightarrow>
        (\<exists>i<length (calls w). calls w ! i = mk_request imgs si p \<and>
                               decode L (R i (mk_request imgs si p)) = v))"

definition cache_fresh :: "remote \<Rightarrow> loads \<Rightarrow> world \<Rightarrow> bool" where
  "cache_fresh R L w =
     (case image_list (session w) of
        None \<Rightarrow> cache w = Map.empty
      | Some imgs \<Rightarrow> fresh_for R L imgs w)"

section \<open>Concrete inputs\<close>

text \<open>Remote models: one that always raises, one that raises at the first request only,
  one that always answers the text \<open>x\<close>, one that answers prose, one whose answer depends
  on the first image, one that answers the video request only (with the text \<open>v\<close>), one that answers with
  flashcards. Parsers for their answers.\<close>

definition failing_remote :: remote where
  "failing_remote n req = Raises ''quota exceeded''"


definition echo_remote :: remote where
  "echo_remote n req = Responds (Some ''x'')"


definition image_remote :: remote where
  "image_remote n req =
     (if hd (contents req) = ImagePart (Image 1) then Responds (Some ''x'') else Responds (Some ''y''))"

definition video_only_remote :: remote where
  "video_only_remote n req =
     (if last (contents req) = TextPart video_prompt then Responds (Some ''v'')
      else Raises ''quota exceeded'')"

definition cards_remote :: remote where
  "cards_remote n req = Responds (Some ''cards'')"

definition str_loads :: loads where
  "str_loads t = (if t = ''x'' then Loaded (JStr ''x'') else JSONDecodeError ''Expecting value'')"

definition xy_loads :: loads where
  "xy_loads t = Loaded (JStr t)"

definition null_query_loads :: loads where
  "null_query_loads t =
     (if t = ''v''
      then Loaded (JObj [(''video_search_query'', JNull), (''video_url'', JStr ''https://youtu.be/abc'')])
      else JSONDecodeError ''Expecting value'')"

definition blank_url_loads :: loads where
  "blank_url_loads t =
     (if t = ''v''
      then Loaded (JObj [(''video_search_query'', JStr ''mitosis''), (''video_url'', JStr ''  '')])
      else JSONDecodeError ''Expecting value'')"

definition bad_cards :: json where
  "bad_cards = JArr [JObj [(''front'', JStr ''Q1''), (''back'', JStr ''A1'')]]"

definition cards_loads :: loads where
  "cards_loads t = Loaded bad_cards"

text \<open>Uploaded files, what the user did, and a session that has a video already.\<close>

definition one_file :: upfile where
  "one_file = \<lparr>file_name = ''notes.jpg'', pil_open = Opens (Image 1)\<rparr>"


definition click :: inputs where
  "click = \<lparr>api_key = Some ''k'', uploaded_files = Some [one_file], subject_input = ''Biology'', button = True\<rparr>"

definition no_click :: inputs where
  "no_click = \<lparr>api_key = Some ''k'', uploaded_files = Some [one_file], subject_input = ''Biology'', button = False\<rparr>"


definition shown_world :: world where
  "shown_world =
     \<lparr>session = \<lparr>ready = Some True, video_url = Some (JStr ''https://youtu.be/abc''),
                  video_search_query = Some (JStr ''mitosis''),
                  image_list = Some [Image 1], subject = Some ''Biology''\<rparr>,
      cache = Map.empty, calls = [], screen = []\<rparr>"

section \<open>The cache\<close>

lemma generate_content_hit:
  "cache w (si, p) = Some v \<Longrightarrow> generate_content R L c images si p w = (v, w)"
  by (simp add: generate_content_def)

lemma generate_content_stored:
  "generate_content R L c images si p w = (v, w1) \<Longrightarrow> cache w1 (si, p) = Some v"
  by (auto simp: generate_content_def split: option.splits prod.splits)

lemma generate_content_body_calls:
  "generate_content_body R L c images si p w = (v, w1) \<Longrightarrow>
     calls w1 = calls w \<or> calls w1 = calls w @ [mk_request images si p]"
  by (auto simp: generate_content_body_def draw_def Let_def
           split: option.splits response.splits loaded.splits)

lemma generate_content_calls:
  "generate_content R L c images si p w = (v, w1) \<Longrightarrow>
     calls w1 = calls w \<or> calls w1 = calls w @ [mk_request images si p]"
  by (auto simp: generate_content_def split: option.splits prod.splits
           dest: generate_content_body_calls)

text \<open>
  C4. Without a client, \<open>generate_content\<close> returns \<^verbatim>\<open>None\<close> at once: no request is sent and
  nothing is drawn. A process that has no client never had one, so its cache holds no
  value other than \<^verbatim>\<open>None\<close>; the property is kept by the call, hence it holds for every
  call of such a process.
\<close>

theorem generate_content_without_client:
  assumes "\<forall>k v. cache w k = Some v \<longrightarrow> v = JNull"
  shows "fst (generate_content R L None images si p w) = JNull \<and>
         calls (snd (generate_content R L None images si p w)) = calls w \<and>
         screen (snd (generate_content R L None images si p w)) = screen w \<and>
         (\<forall>k v. cache (snd (generate_content R L None images si p w)) k = Some v \<longrightarrow> v = JNull)"
  using assms
  by (auto simp: generate_content_def generate_content_body_def split: option.splits)

theorem generate_content_without_client_witness:
  "cache new_world = Map.empty \<and>
   fst (generate_content echo_remote str_loads None [Image 1] ''s'' ''p'' new_world) = JNull \<and>
   calls (snd (generate_content echo_remote str_loads None [Image 1] ''s'' ''p'' new_world)) = []"
proof -
  have h: "\<forall>k v. cache new_world k = Some v \<longrightarrow> v = JNull"
    by (simp add: new_world_def)
  show ?thesis
    using generate_content_without_client [OF h, of echo_remote str_loads "[Image 1]" "''s''" "''p''"]
    by (simp add: new_world_def)
qed

text \<open>
  C5. When a call of \<open>generate_content\<close> returned a value other than \<^verbatim>\<open>None\<close>, the same call
  made again with no cache clear in between returns the same value and leaves the state
  as it is: the two calls together send at most one request to the remote model.
\<close>

theorem second_call_is_cache_hit:
  assumes "generate_content R L c images si p w = (v, w1)" and "v \<noteq> JNull"
  shows "generate_content R L c images si p w1 = (v, w1) \<and>
         length (calls w1) \<le> length (calls w) + 1"
  using generate_content_hit [OF generate_content_stored [OF assms(1)]]
        generate_content_calls [OF assms(1)]
  by auto

theorem second_call_is_cache_hit_witness:
  "fst (generate_content echo_remote str_loads (Some (Client ''k'')) [Image 1] ''s'' ''p'' new_world)
     = JStr ''x'' \<and>
   generate_content echo_remote str_loads (Some (Client ''k'')) [Image 1] ''s'' ''p''
     (snd (generate_content echo_remote str_loads (Some (Client ''k'')) [Image 1] ''s'' ''p'' new_world))
     = generate_content echo_remote str_loads (Some (Client ''k'')) [Image 1] ''s'' ''p'' new_world \<and>
   length (calls (snd (generate_content echo_remote str_loads (Some (Client ''k'')) [Image 1] ''s'' ''p''
     new_world))) = 1"
proof -
  let ?r = "generate_content echo_remote str_loads (Some (Client ''k'')) [Image 1] ''s'' ''p'' new_world"
  have v: "fst ?r = JStr ''x''"
    by (simp add: generate_content_def generate_content_body_def new_world_def echo_remote_def
                  str_loads_def draw_def Let_def)
  have n: "length (calls (snd ?r)) = 1"
    by (simp add: generate_content_def generate_content_body_def new_world_def echo_remote_def
                  str_loads_def draw_def Let_def)
  have e: "?r = (fst ?r, snd ?r)" by simp
  have "fst ?r \<noteq> JNull" using v by simp
  from second_call_is_cache_hit [OF e this] v n show ?thesis by simp
qed

section \<open>Failures of the remote call\<close>



section \<open>Cleaning the URL\<close>

lemma py_strip_surround:
  assumes "list_all py_isspace ws1" and "list_all py_isspace ws2"
    and "u \<noteq> []" and "\<not> py_isspace (hd u)" and "\<not> py_isspace (last u)"
  shows "py_strip (ws1 @ u @ ws2) = u"
proof -
  from assms(3) obtain x xs where u: "u = x # xs" by (cases u) auto
  have "dropWhile py_isspace (ws1 @ u @ ws2) = dropWhile py_isspace (u @ ws2)"
    using assms(1) by (simp add: dropWhile_append2 list_all_iff)
  also have "\<dots> = u @ ws2" using assms(4) u by simp
  finally have a: "dropWhile py_isspace (ws1 @ u @ ws2) = u @ ws2" .
  have "dropWhile py_isspace (rev ws2 @ rev u) = dropWhile py_isspace (rev u)"
    by (rule dropWhile_append2) (use assms(2) in \<open>simp add: list_all_iff\<close>)
  also have "\<dots> = rev u"
    using assms(3,5) by (cases "rev u") (auto simp: last_rev [symmetric] hd_rev)
  finally show ?thesis using a by (simp add: py_strip_def)
qed

lemma dquote_not_space: "\<not> py_isspace dquote"
  by (simp add: py_isspace_def dquote_def)

lemma newline_is_space: "py_isspace newline"
  by (simp add: py_isspace_def newline_def)

lemma re_sub_quotes_pair: "re_sub_quotes (dquote # s @ [dquote]) = s"
  by (simp add: re_sub_quotes_def sub_trailing_quote_def)

lemma re_sub_quotes_clean:
  assumes "t \<noteq> []" and "hd t \<noteq> dquote" and "last t \<noteq> dquote" and "last t \<noteq> newline"
  shows "re_sub_quotes t = t"
proof -
  from assms(1) obtain x xs where t: "t = x # xs" by (cases t) auto
  show ?thesis
  proof (cases "xs = []")
    case True
    with t assms(2) show ?thesis by (simp add: re_sub_quotes_def sub_trailing_quote_def)
  next
    case False
    with t assms(3,4) have "last xs \<noteq> dquote" "last xs \<noteq> newline" by simp_all
    with t assms(2) show ?thesis by (simp add: re_sub_quotes_def sub_trailing_quote_def)
  qed
qed

text \<open>
  C7. White space around the string is stripped, then one double quote at the start and
  one at the end: a string between two double quotes, with any white space around them,
  is cleaned to the string itself; and a string that starts and ends with a character
  that is neither white space nor a double quote, with any white space around it, is
  cleaned to itself. The two strings of the claim are instances.
\<close>

theorem clean_url_strips_space_and_quotes:
  assumes "list_all py_isspace ws1" and "list_all py_isspace ws2"
  shows "clean_url (ws1 @ dquote # s @ [dquote] @ ws2) = s \<and>
         (t \<noteq> [] \<and> \<not> py_isspace (hd t) \<and> \<not> py_isspace (last t) \<and>
          hd t \<noteq> dquote \<and> last t \<noteq> dquote \<longrightarrow> clean_url (ws1 @ t @ ws2) = t)"
proof
  have "py_strip (ws1 @ (dquote # s @ [dquote]) @ ws2) = dquote # s @ [dquote]"
    by (rule py_strip_surround [OF assms]) (simp_all add: dquote_not_space)
  then show "clean_url (ws1 @ dquote # s @ [dquote] @ ws2) = s"
    by (simp add: clean_url_def re_sub_quotes_pair)
next
  show "t \<noteq> [] \<and> \<not> py_isspace (hd t) \<and> \<not> py_isspace (last t) \<and>
          hd t \<noteq> dquote \<and> last t \<noteq> dquote \<longrightarrow> clean_url (ws1 @ t @ ws2) = t"
  proof
    assume h: "t \<noteq> [] \<and> \<not> py_isspace (hd t) \<and> \<not> py_isspace (last t) \<and>
          hd t \<noteq> dquote \<and> last t \<noteq> dquote"
    then have "last t \<noteq> newline" using newline_is_space by auto
    with h have "re_sub_quotes t = t" by (simp add: re_sub_quotes_clean)
    moreover from h have "py_strip (ws1 @ t @ ws2) = t"
      by (simp add: py_strip_surround [OF assms])
    ultimately show "clean_url (ws1 @ t @ ws2) = t" by (simp add: clean_url_def)
  qed
qed

theorem clean_url_examples:
  "clean_url ''https://youtu.be/abc'' = ''https://youtu.be/abc'' \<and>
   clean_url (dquote # ''https://youtu.be/abc'' @ [dquote]) = ''https://youtu.be/abc'' \<and>
   clean_url (''  '' @ dquote # ''https://youtu.be/abc'' @ [dquote] @ [newline]) = ''https://youtu.be/abc''"
proof -
  have e: "list_all py_isspace []" by simp
  have sp: "list_all py_isspace ''  ''" "list_all py_isspace [newline]"
    by (simp_all add: py_isspace_def newline_def)
  from clean_url_strips_space_and_quotes [OF e e, of "''https://youtu.be/abc''" "''https://youtu.be/abc''"]
       clean_url_strips_space_and_quotes [OF sp, of "''https://youtu.be/abc''" "[]"]
  show ?thesis by (simp add: py_isspace_def dquote_def)
qed

section \<open>What the panels and a run do to the state\<close>

lemma generate_content_rel:
  "generate_content R L c images si p w = (v, w1) \<Longrightarrow> gen_rel R L c images si p w v w1"
  by (auto simp: generate_content_def generate_content_body_def gen_rel_def decode_def draw_def Let_def
           split: option.splits response.splits loaded.splits prod.splits)

lemma gen_rel_draw:
  "gen_rel R L c images si p (draw e w) v w1 \<Longrightarrow> gen_rel R L c images si p w v w1"
  by (auto simp: gen_rel_def draw_def split: option.splits)

lemma gen_rel_draw_all:
  "gen_rel R L c images si p w v w1 \<Longrightarrow> gen_rel R L c images si p w v (draw_all es w1)"
  by (auto simp: gen_rel_def draw_all_def split: option.splits)

lemma flashcard_tab_rel:
  "flashcard_tab R L c images subj w = (r, w1) \<Longrightarrow>
     \<exists>v. gen_rel R L c images (fc_sys_instruction subj) fc_prompt w v w1 \<and>
         r = snd (render_flashcards v)"
  by (auto simp: flashcard_tab_def split: prod.splits
           dest!: generate_content_rel intro!: gen_rel_draw_all dest: gen_rel_draw)

lemma quiz_tab_rel:
  "quiz_tab R L c images subj w = (r, w1) \<Longrightarrow>
     \<exists>v. gen_rel R L c images (quiz_sys_instruction subj) quiz_prompt w v w1 \<and>
         r = snd (render_quiz v)"
  by (auto simp: quiz_tab_def split: prod.splits
           dest!: generate_content_rel intro!: gen_rel_draw_all dest: gen_rel_draw)

lemma explainer_tab_rel:
  "explainer_tab R L c images subj w = (r, w1) \<Longrightarrow>
     \<exists>v. gen_rel R L c images (solver_sys_instruction subj) solver_prompt w v w1 \<and>
         r = snd (render_explainer v)"
  by (auto simp: explainer_tab_def split: prod.splits
           dest!: generate_content_rel intro!: gen_rel_draw_all dest: gen_rel_draw)

lemma store_video_effect:
  assumes "store_video v w = (r, w')"
  shows "cache w' = cache w \<and> calls w' = calls w \<and>
         image_list (session w') = image_list (session w) \<and>
         subject (session w') = subject (session w) \<and>
         ready (session w') = ready (session w) \<and>
         (session w' = session w \<or>
          (\<exists>u. video_url (session w') = Some (JStr u) \<and>
            (video_search_query (session w') = video_search_query (session w) \<or>
             (\<exists>q. video_search_query (session w') = Some q))))"
  using assms
  by (auto simp: store_video_def draw_def draw_all_def Let_def
           split: if_splits sum.splits bool.splits json.splits)

lemma video_tab_cases:
  assumes "video_tab R L c images subj w = (r, w')"
  obtains (absent) "video_url (session w) = None" "r = Some AttributeError"
      "session w' = session w" "cache w' = cache w" "calls w' = calls w"
  | (shown) url where "video_url (session w) = Some url" "truthy url"
      "session w' = session w" "cache w' = cache w" "calls w' = calls w"
  | (asked) url v w1 where "video_url (session w) = Some url" "\<not> truthy url"
      "gen_rel R L c images (video_sys_instruction subj) video_prompt w v w1"
      "store_video v w1 = (r, w')"
proof (cases "video_url (session w)")
  case None
  with assms absent show ?thesis
    by (auto simp: video_tab_def draw_def Let_def)
next
  case (Some url)
  show ?thesis
  proof (cases "truthy url")
    case True
    with Some assms shown [of url] show ?thesis
      by (auto simp: video_tab_def draw_def draw_all_def Let_def split: option.splits)
  next
    case False
    with Some assms obtain v w1 where
      g: "generate_content R L c images (video_sys_instruction subj) video_prompt
            (draw (St_header ''Video Tutor'') w) = (v, w1)"
      and s: "store_video v w1 = (r, w')"
      by (auto simp: video_tab_def Let_def draw_def split: prod.splits)
    from generate_content_rel [OF g] have "gen_rel R L c images (video_sys_instruction subj) video_prompt w v w1"
      by (rule gen_rel_draw)
    with Some False s asked [of url v w1] show ?thesis by blast
  qed
qed

lemma results_tabs_cases:
  assumes "results_tabs R L c w = (r, w')"
    and "image_list (session w) = Some images" and "subject (session w) = Some subj"
  obtains (fc) v1 where
      "gen_rel R L c images (fc_sys_instruction subj) fc_prompt w v1 w'"
      "r = snd (render_flashcards v1)" "r \<noteq> None"
  | (quiz) v1 w1 v2 where
      "gen_rel R L c images (fc_sys_instruction subj) fc_prompt w v1 w1"
      "snd (render_flashcards v1) = None"
      "gen_rel R L c images (quiz_sys_instruction subj) quiz_prompt w1 v2 w'"
      "r = snd (render_quiz v2)" "r \<noteq> None"
  | (expl) v1 w1 v2 w2 v3 where
      "gen_rel R L c images (fc_sys_instruction subj) fc_prompt w v1 w1"
      "snd (render_flashcards v1) = None"
      "gen_rel R L c images (quiz_sys_instruction subj) quiz_prompt w1 v2 w2"
      "snd (render_quiz v2) = None"
      "gen_rel R L c images (solver_sys_instruction subj) solver_prompt w2 v3 w'"
      "r = snd (render_explainer v3)" "r \<noteq> None"
  | (video) v1 w1 v2 w2 v3 w3 where
      "gen_rel R L c images (fc_sys_instruction subj) fc_prompt w v1 w1"
      "snd (render_flashcards v1) = None"
      "gen_rel R L c images (quiz_sys_instruction subj) quiz_prompt w1 v2 w2"
      "snd (render_quiz v2) = None"
      "gen_rel R L c images (solver_sys_instruction subj) solver_prompt w2 v3 w3"
      "snd (render_explainer v3) = None"
      "video_tab R L c images subj w3 = (r, w')"
proof -
  obtain r1 w1 where t1: "flashcard_tab R L c images subj
      (draw (St_tabs [''Flashcards'', ''Quiz'', ''Explainer'', ''Video Tutor'']) w) = (r1, w1)"
    by (cases "flashcard_tab R L c images subj
      (draw (St_tabs [''Flashcards'', ''Quiz'', ''Explainer'', ''Video Tutor'']) w)") blast
  from flashcard_tab_rel [OF t1] obtain v1 where
    g1: "gen_rel R L c images (fc_sys_instruction subj) fc_prompt w v1 w1"
    and r1: "snd (render_flashcards v1) = r1"
    by (auto dest: gen_rel_draw)
  show ?thesis
  proof (cases r1)
    case (Some e)
    with assms t1 have e: "r = r1" "w' = w1" by (auto simp: results_tabs_def)
    show ?thesis
      by (rule fc [of v1]) (use g1 r1 Some e in simp_all)
  next
    case None
    obtain r2 w2 where t2: "quiz_tab R L c images subj w1 = (r2, w2)"
      by (cases "quiz_tab R L c images subj w1") blast
    from quiz_tab_rel [OF t2] obtain v2 where
      g2: "gen_rel R L c images (quiz_sys_instruction subj) quiz_prompt w1 v2 w2"
      and r2: "snd (render_quiz v2) = r2" by auto
    show ?thesis
    proof (cases r2)
      case (Some e)
      with assms t1 t2 None have e: "r = r2" "w' = w2" by (auto simp: results_tabs_def)
      show ?thesis
        by (rule quiz [of v1 w1 v2]) (use g1 r1 None g2 r2 Some e in simp_all)
    next
      case n2: None
      obtain r3 w3 where t3: "explainer_tab R L c images subj w2 = (r3, w3)"
        by (cases "explainer_tab R L c images subj w2") blast
      from explainer_tab_rel [OF t3] obtain v3 where
        g3: "gen_rel R L c images (solver_sys_instruction subj) solver_prompt w2 v3 w3"
        and r3: "snd (render_explainer v3) = r3" by auto
      show ?thesis
      proof (cases r3)
        case (Some e)
        with assms t1 t2 t3 None n2 have e: "r = r3" "w' = w3" by (auto simp: results_tabs_def)
        show ?thesis
          by (rule expl [of v1 w1 v2 w2 v3]) (use g1 r1 None g2 r2 n2 g3 r3 Some e in simp_all)
      next
        case n3: None
        with assms t1 t2 t3 None n2 have e: "video_tab R L c images subj w3 = (r, w')"
          by (auto simp: results_tabs_def)
        show ?thesis
          by (rule video [of v1 w1 v2 w2 v3 w3]) (use g1 r1 None g2 r2 n2 g3 r3 n3 e in simp_all)
      qed
    qed
  qed
qed

lemma analyze_trigger_effect:
  "cache (analyze_trigger files subj_in w) = Map.empty \<and>
   calls (analyze_trigger files subj_in w) = calls w \<and>
   session (analyze_trigger files subj_in w) =
     (session w)\<lparr>video_url := Some JNull, video_search_query := Some JNull,
                 image_list := Some (opened_images files), subject := Some subj_in,
                 ready := Some True\<rparr>"
  by (simp add: analyze_trigger_def cache_clear_def draw_def Let_def opened_images_def
           split: sum.splits)

lemma init_session_ready: "ready (init_session s) \<noteq> None"
  by (auto simp: init_session_def Let_def)

lemma run_pass_cases:
  assumes "run_pass R L inp w = (r, w')"
  obtains (idle) "r = None" "session w' = init_session (session w)"
      "cache w' = cache w" "calls w' = calls w"
      "uploaded_files inp = None \<or> uploaded_files inp = Some [] \<or>
       get_client (api_key inp) = None \<or>
       (\<not> button inp \<and> ready (init_session (session w)) = Some False)"
  | (clicked) c files w5 where "get_client (api_key inp) = Some c"
      "uploaded_files inp = Some files" "files \<noteq> []" "button inp"
      "cache w5 = Map.empty" "calls w5 = calls w"
      "session w5 = (init_session (session w))\<lparr>video_url := Some JNull, video_search_query := Some JNull,
                 image_list := Some (opened_images files), subject := Some (subject_input inp),
                 ready := Some True\<rparr>"
      "results_tabs R L (Some c) w5 = (r, w')"
  | (again) c files w5 where "get_client (api_key inp) = Some c"
      "uploaded_files inp = Some files" "files \<noteq> []" "\<not> button inp"
      "cache w5 = cache w" "calls w5 = calls w"
      "session w5 = init_session (session w)" "ready (session w5) = Some True"
      "results_tabs R L (Some c) w5 = (r, w')"
proof -
  define w4 where "w4 = sidebar inp
     (let w1 = w\<lparr>screen := (if get_client (api_key inp) = None
                             then [St_error [Lit ''GEMINI_API_KEY not found. Please set it in the .env file.'']]
                             else [])\<rparr>;
          w2 = draw St_css
                 (draw (St_caption ''Use Gemini StudyPal to create flashcards, quizzes, and explanations from your notes.'')
                    (draw (St_title ''Your Gemini StudyPal'') w1))
      in w2\<lparr>session := init_session (session w2)\<rparr>)"
  have w4: "session w4 = init_session (session w)" "cache w4 = cache w" "calls w4 = calls w"
    by (simp_all add: w4_def sidebar_def draw_def draw_all_def Let_def split: option.splits)
  have rp: "run_pass R L inp w =
     (case uploaded_files inp of
           None \<Rightarrow>
             (None, draw (St_info [Lit ''Please upload one or more images of your notes or textbook to begin.'']) w4)
         | Some files \<Rightarrow>
             if files = [] then
               (None, draw (St_info [Lit ''Please upload one or more images of your notes or textbook to begin.'']) w4)
             else if get_client (api_key inp) = None then (None, w4)
             else
               (let w5 = (if button inp then analyze_trigger files (subject_input inp) w4 else w4) in
                case ready (session w5) of
                  None \<Rightarrow> (Some AttributeError, w5)
                | Some False \<Rightarrow> (None, w5)
                | Some True \<Rightarrow> results_tabs R L (get_client (api_key inp)) w5))"
    unfolding run_pass_def w4_def Let_def by (rule refl)
  show ?thesis
  proof (cases "uploaded_files inp")
    case None
    with assms rp w4 idle show ?thesis by (auto simp: draw_def)
  next
    case (Some files)
    show ?thesis
    proof (cases "files = [] \<or> get_client (api_key inp) = None")
      case True
      with assms rp w4 Some idle show ?thesis by (auto simp: draw_def split: if_splits)
    next
      case False
      then obtain c where c: "get_client (api_key inp) = Some c" and ne: "files \<noteq> []" by auto
      show ?thesis
      proof (cases "button inp")
        case True
        let ?w5 = "analyze_trigger files (subject_input inp) w4"
        have "results_tabs R L (Some c) ?w5 = (r, w')"
          using assms rp Some c ne True by (simp add: analyze_trigger_effect)
        then show ?thesis
          using clicked [of c files ?w5] c Some ne True w4 by (simp add: analyze_trigger_effect)
      next
        case nb: False
        show ?thesis
        proof (cases "ready (session w4) = Some True")
          case True
          have "results_tabs R L (Some c) w4 = (r, w')"
            using assms rp Some c ne nb True by simp
          then show ?thesis using again [of c files w4] c Some ne nb w4 True by simp
        next
          case False
          with init_session_ready [of "session w"] w4 obtain b where "ready (session w4) = Some b" "\<not> b"
            by (cases "ready (session w4)") auto
          with assms rp Some c ne nb w4 idle show ?thesis by simp
        qed
      qed
    qed
  qed
qed

section \<open>The two video fields\<close>

lemma video_fields_ok_query: "video_fields_ok s \<Longrightarrow> video_search_query s \<noteq> None"
  by (auto simp: video_fields_ok_def split: option.splits json.splits)

lemma init_session_video: "video_fields_start s \<Longrightarrow> video_fields_ok (init_session s)"
  by (auto simp: video_fields_start_def video_fields_ok_def init_session_def Let_def
           split: option.splits json.splits)

lemma store_video_fields:
  assumes "store_video v w = (r, w')" and "video_fields_ok (session w)"
  shows "video_fields_ok (session w')"
proof -
  from store_video_effect [OF assms(1)]
  consider "session w' = session w"
    | u where "video_url (session w') = Some (JStr u)"
        "video_search_query (session w') = video_search_query (session w)"
    | u q where "video_url (session w') = Some (JStr u)" "video_search_query (session w') = Some q"
    by blast
  then show ?thesis
  proof cases
    case 1 with assms(2) show ?thesis by simp
  next
    case 2 with video_fields_ok_query [OF assms(2)] show ?thesis
      by (simp add: video_fields_ok_def)
  next
    case 3 then show ?thesis by (simp add: video_fields_ok_def)
  qed
qed

lemma gen_rel_session: "gen_rel R L c images si p w v w1 \<Longrightarrow> session w1 = session w"
  by (simp add: gen_rel_def)

lemma video_tab_fields:
  assumes "video_tab R L c images subj w = (r, w')" and "video_fields_ok (session w)"
  shows "video_fields_ok (session w')"
  using assms(1)
proof (cases rule: video_tab_cases)
  case absent with assms(2) show ?thesis by simp
next
  case (shown url) with assms(2) show ?thesis by simp
next
  case (asked url v w1)
  from asked(3) assms(2) have "video_fields_ok (session w1)" by (simp add: gen_rel_session)
  with asked(4) show ?thesis by (rule store_video_fields)
qed

lemma results_tabs_fields:
  assumes "results_tabs R L c w = (r, w')" and "video_fields_ok (session w)"
  shows "video_fields_ok (session w')"
proof (cases "image_list (session w)")
  case None with assms show ?thesis by (simp add: results_tabs_def)
next
  case (Some images)
  show ?thesis
  proof (cases "subject (session w)")
    case None with Some assms show ?thesis by (simp add: results_tabs_def)
  next
    case (Some subj)
    from assms(1) \<open>image_list (session w) = Some images\<close> Some show ?thesis
    proof (cases rule: results_tabs_cases)
      case (fc v1) with assms(2) show ?thesis by (simp add: gen_rel_session)
    next
      case (quiz v1 w1 v2) with assms(2) show ?thesis by (simp add: gen_rel_session)
    next
      case (expl v1 w1 v2 w2 v3) with assms(2) show ?thesis by (simp add: gen_rel_session)
    next
      case (video v1 w1 v2 w2 v3 w3)
      with assms(2) have "video_fields_ok (session w3)" by (simp add: gen_rel_session)
      with video(7) show ?thesis by (rule video_tab_fields)
    qed
  qed
qed

lemma run_pass_fields:
  assumes "run_pass R L inp w = (r, w')" and "video_fields_start (session w)"
  shows "video_fields_ok (session w')"
  using assms(1)
proof (cases rule: run_pass_cases)
  case idle with init_session_video [OF assms(2)] show ?thesis by simp
next
  case (clicked c files w5)
  from clicked(7) have "video_fields_ok (session w5)" by (simp add: video_fields_ok_def)
  with clicked(8) show ?thesis by (rule results_tabs_fields)
next
  case (again c files w5)
  from again(7) init_session_video [OF assms(2)] have "video_fields_ok (session w5)" by simp
  with again(9) show ?thesis by (rule results_tabs_fields)
qed

lemma reachable_video_fields: "reachable R L w \<Longrightarrow> video_fields_start (session w)"
proof (induction rule: reachable.induct)
  case reachable_new
  show ?case by (simp add: video_fields_start_def new_world_def)
next
  case (reachable_pass w inp r w')
  from run_pass_fields [OF reachable_pass(2) reachable_pass(3)] show ?case
    by (simp add: video_fields_start_def)
next
  case (reachable_others w m cs)
  then show ?case by simp
qed

lemma py_getitem_present:
  assumes "py_getitem v k' = Inr x" and "py_contains k v = Inr True"
  shows "\<exists>q. py_getitem v k = Inr q"
proof (cases v)
  case (JObj kvs)
  with assms(2) have "k \<in> fst ` set kvs" by simp
  then have "map_of kvs k \<noteq> None" by (simp add: map_of_eq_None_iff)
  with JObj show ?thesis by auto
qed (use assms(1) in simp_all)

lemma store_video_writes:
  assumes "store_video v w = (r, w')"
  shows "session w' = session w \<or>
         (\<exists>raw_url q. py_getitem v ''video_url'' = Inr (JStr raw_url) \<and>
            py_getitem v ''video_search_query'' = Inr q \<and>
            session w' = (session w)\<lparr>video_url := Some (JStr (clean_url raw_url)),
                                     video_search_query := Some q\<rparr>)"
proof (cases "truthy v \<and> py_contains ''video_url'' v = Inr True \<and>
              py_contains ''video_search_query'' v = Inr True")
  case False
  with assms show ?thesis
    by (auto simp: store_video_def draw_def split: if_splits sum.splits bool.splits)
next
  case True
  show ?thesis
  proof (cases "py_getitem v ''video_url''")
    case (Inl e)
    with True assms show ?thesis by (simp add: store_video_def)
  next
    case (Inr x)
    from py_getitem_present [OF Inr] True obtain q where
      q: "py_getitem v ''video_search_query'' = Inr q" by blast
    show ?thesis
    proof (cases "\<exists>raw_url. x = JStr raw_url")
      case False
      with True Inr assms have "w' = w" by (cases x) (simp_all add: store_video_def)
      then show ?thesis by simp
    next
      case t: True
      then obtain raw_url where "x = JStr raw_url" by blast
      with True Inr q assms show ?thesis
        by (auto simp: store_video_def draw_all_def Let_def)
    qed
  qed
qed

lemma gen_rel_cached: "gen_rel R L c images si p w v w1 \<Longrightarrow> cache w1 (si, p) = Some v"
  by (auto simp: gen_rel_def split: option.splits)

lemma results_tabs_video_step:
  assumes "results_tabs R L c w = (r, w')"
  shows "video_fields_step (session w) w'"
proof (cases "image_list (session w)")
  case None with assms show ?thesis by (simp add: results_tabs_def video_fields_step_def)
next
  case (Some images)
  show ?thesis
  proof (cases "subject (session w)")
    case None with Some assms show ?thesis by (simp add: results_tabs_def video_fields_step_def)
  next
    case su: (Some subj)
    from assms Some su show ?thesis
    proof (cases rule: results_tabs_cases)
      case (fc v1) then show ?thesis by (simp add: gen_rel_session video_fields_step_def)
    next
      case (quiz v1 w1 v2) then show ?thesis by (simp add: gen_rel_session video_fields_step_def)
    next
      case (expl v1 w1 v2 w2 v3)
      then show ?thesis by (simp add: gen_rel_session video_fields_step_def)
    next
      case (video v1 w1 v2 w2 v3 w3)
      have s3: "session w3 = session w"
        using gen_rel_session [OF video(1)] gen_rel_session [OF video(3)] gen_rel_session [OF video(5)]
        by simp
      from video(7) show ?thesis
      proof (cases rule: video_tab_cases)
        case absent with s3 show ?thesis by (simp add: video_fields_step_def)
      next
        case (shown u) with s3 show ?thesis by (simp add: video_fields_step_def)
      next
        case (asked u v w4)
        have s4: "session w4 = session w" using gen_rel_session [OF asked(3)] s3 by simp
        have k4: "cache w4 (video_sys_instruction subj, video_prompt) = Some v"
          by (rule gen_rel_cached [OF asked(3)])
        from store_video_effect [OF asked(4)] have k: "cache w' = cache w4"
          and sj: "subject (session w') = subject (session w4)" by simp_all
        from store_video_writes [OF asked(4)] show ?thesis
        proof
          assume "session w' = session w4"
          with s4 show ?thesis by (simp add: video_fields_step_def)
        next
          assume "\<exists>raw_url q. py_getitem v ''video_url'' = Inr (JStr raw_url) \<and>
            py_getitem v ''video_search_query'' = Inr q \<and>
            session w' = (session w4)\<lparr>video_url := Some (JStr (clean_url raw_url)),
                                     video_search_query := Some q\<rparr>"
          then obtain raw_url q where g: "py_getitem v ''video_url'' = Inr (JStr raw_url)"
            "py_getitem v ''video_search_query'' = Inr q"
            and s': "session w' = (session w4)\<lparr>video_url := Some (JStr (clean_url raw_url)),
                                     video_search_query := Some q\<rparr>" by blast
          have "subject (session w') = Some subj" using sj s4 su by simp
          moreover have "cache w' (video_sys_instruction subj, video_prompt) = Some v"
            using k k4 by simp
          moreover have "video_url (session w') = Some (JStr (clean_url raw_url))"
            "video_search_query (session w') = Some q" using s' by simp_all
          ultimately show ?thesis unfolding video_fields_step_def using g by blast
        qed
      qed
    qed
  qed
qed

lemma run_pass_video_step:
  assumes "run_pass R L inp w = (r, w')"
  shows "video_fields_step (init_session (session w)) w'"
  using assms
proof (cases rule: run_pass_cases)
  case idle then show ?thesis by (simp add: video_fields_step_def)
next
  case (clicked c files w5)
  from results_tabs_video_step [OF clicked(8)] clicked(7) show ?thesis
    by (auto simp: video_fields_step_def)
next
  case (again c files w5)
  from results_tabs_video_step [OF again(9)] again(7) show ?thesis by simp
qed

text \<open>
  C10, as amended. At the end of every run of the script, in any state a session can reach,
  both fields are present, and the run wrote them together or not at all:
  \<open>video_fields_ok\<close> says that \<open>video_url\<close> is \<^verbatim>\<open>None\<close> only together with
  \<open>video_search_query\<close>, and is a string otherwise; \<open>video_fields_step\<close> says that the run
  left both fields as they were, or left both \<^verbatim>\<open>None\<close>, or wrote both from the payload of the
  video request: \<open>video_url\<close> is the cleaned URL of the payload and \<open>video_search_query\<close> is
  the payload's value under that key, whatever it is, \<^verbatim>\<open>None\<close> included.
\<close>

theorem video_fields_written_together:
  assumes "reachable R L w" and "run_pass R L inp w = (r, w')"
  shows "video_fields_ok (session w') \<and> video_fields_step (init_session (session w)) w'"
  using run_pass_fields [OF assms(2) reachable_video_fields [OF assms(1)]]
        run_pass_video_step [OF assms(2)]
  by simp

lemma prompts_distinct:
  "fc_prompt \<noteq> quiz_prompt" "fc_prompt \<noteq> solver_prompt" "fc_prompt \<noteq> video_prompt"
  "quiz_prompt \<noteq> solver_prompt" "quiz_prompt \<noteq> video_prompt" "solver_prompt \<noteq> video_prompt"
  by (simp_all add: fc_prompt_def quiz_prompt_def solver_prompt_def video_prompt_def)

lemmas pass_defs =
  run_pass_def new_world_def get_client_def init_session_def
  sidebar_def draw_def draw_all_def analyze_trigger_def cache_clear_def results_tabs_def
  flashcard_tab_def quiz_tab_def explainer_tab_def video_tab_def store_video_def
  generate_content_def generate_content_body_def mk_request_def
  render_flashcards_def render_quiz_def render_explainer_def video_warning_def
  clean_url_def re_sub_quotes_def sub_trailing_quote_def py_strip_def py_isspace_def
  dquote_def newline_def Let_def prompts_distinct prompts_distinct [symmetric]

text \<open>
  C10 as stated fails: when the video payload has a URL and a null search query, the run
  ends with \<open>video_url\<close> populated and \<open>video_search_query\<close> equal to \<^verbatim>\<open>None\<close>.
\<close>

theorem video_fields_counterexample:
  "video_url (session (snd (run_pass video_only_remote null_query_loads click new_world)))
     = Some (JStr ''https://youtu.be/abc'') \<and>
   video_search_query (session (snd (run_pass video_only_remote null_query_loads click new_world)))
     = Some JNull"
  by (simp add: pass_defs click_def one_file_def video_only_remote_def null_query_loads_def)

theorem video_fields_written_together_witness:
  "video_fields_ok (session (snd (run_pass video_only_remote null_query_loads click new_world))) \<and>
   video_fields_step (init_session (session new_world))
     (snd (run_pass video_only_remote null_query_loads click new_world)) \<and>
   cache (snd (run_pass video_only_remote null_query_loads click new_world))
       (video_sys_instruction ''Biology'', video_prompt)
     = Some (JObj [(''video_search_query'', JNull), (''video_url'', JStr ''https://youtu.be/abc'')])"
proof -
  have e: "run_pass video_only_remote null_query_loads click new_world =
             (fst (run_pass video_only_remote null_query_loads click new_world),
              snd (run_pass video_only_remote null_query_loads click new_world))" by simp
  have "cache (snd (run_pass video_only_remote null_query_loads click new_world))
          (video_sys_instruction ''Biology'', video_prompt)
        = Some (JObj [(''video_search_query'', JNull), (''video_url'', JStr ''https://youtu.be/abc'')])"
    by (simp add: pass_defs click_def one_file_def video_only_remote_def null_query_loads_def)
  with video_fields_written_together [OF reachable_new e] show ?thesis by simp
qed

section \<open>The video panel and the remote model\<close>

lemma gen_rel_prompts:
  assumes "gen_rel R L c images si p w v w1" and "p \<noteq> video_prompt"
    and "calls w = base @ cs" and "TextPart video_prompt \<notin> set (prompts_sent cs)"
  shows "\<exists>cs'. calls w1 = base @ cs' \<and> TextPart video_prompt \<notin> set (prompts_sent cs')"
proof -
  from assms(1) consider "calls w1 = calls w" | "calls w1 = calls w @ [mk_request images si p]"
    by (auto simp: gen_rel_def split: option.splits)
  then show ?thesis
  proof cases
    case 1 with assms(3,4) show ?thesis by auto
  next
    case 2
    with assms(3) have "calls w1 = base @ (cs @ [mk_request images si p])" by simp
    moreover have "TextPart video_prompt \<notin> set (prompts_sent (cs @ [mk_request images si p]))"
      using assms(2,4) by (simp add: prompts_sent_def mk_request_def)
    ultimately show ?thesis by blast
  qed
qed

lemma init_session_video_url: "video_url s = Some u \<Longrightarrow> video_url (init_session s) = Some u"
  by (simp add: init_session_def Let_def)

lemma results_tabs_no_video:
  assumes "results_tabs R L c w = (r, w')" and "video_url (session w) = Some url" and "truthy url"
  shows "(\<exists>cs. calls w' = calls w @ cs \<and> TextPart video_prompt \<notin> set (prompts_sent cs)) \<and>
         video_url (session w') = Some url"
proof (cases "image_list (session w)")
  case None with assms show ?thesis by (simp add: results_tabs_def prompts_sent_def)
next
  case (Some images)
  show ?thesis
  proof (cases "subject (session w)")
    case None with Some assms show ?thesis by (simp add: results_tabs_def prompts_sent_def)
  next
    case (Some subj)
    have b: "calls w = calls w @ []" "TextPart video_prompt \<notin> set (prompts_sent [])"
      by (simp_all add: prompts_sent_def)
    from assms(1) \<open>image_list (session w) = Some images\<close> Some show ?thesis
    proof (cases rule: results_tabs_cases)
      case (fc v1)
      from gen_rel_prompts [OF fc(1) prompts_distinct(3) b] gen_rel_session [OF fc(1)] assms(2)
      show ?thesis by simp
    next
      case (quiz v1 w1 v2)
      from gen_rel_prompts [OF quiz(1) prompts_distinct(3) b] obtain cs1 where
        c1: "calls w1 = calls w @ cs1" "TextPart video_prompt \<notin> set (prompts_sent cs1)" by blast
      from gen_rel_prompts [OF quiz(3) prompts_distinct(5) c1]
        gen_rel_session [OF quiz(1)] gen_rel_session [OF quiz(3)] assms(2)
      show ?thesis by simp
    next
      case (expl v1 w1 v2 w2 v3)
      from gen_rel_prompts [OF expl(1) prompts_distinct(3) b] obtain cs1 where
        c1: "calls w1 = calls w @ cs1" "TextPart video_prompt \<notin> set (prompts_sent cs1)" by blast
      from gen_rel_prompts [OF expl(3) prompts_distinct(5) c1] obtain cs2 where
        c2: "calls w2 = calls w @ cs2" "TextPart video_prompt \<notin> set (prompts_sent cs2)" by blast
      from gen_rel_prompts [OF expl(5) prompts_distinct(6) c2]
        gen_rel_session [OF expl(1)] gen_rel_session [OF expl(3)] gen_rel_session [OF expl(5)] assms(2)
      show ?thesis by simp
    next
      case (video v1 w1 v2 w2 v3 w3)
      from gen_rel_prompts [OF video(1) prompts_distinct(3) b] obtain cs1 where
        c1: "calls w1 = calls w @ cs1" "TextPart video_prompt \<notin> set (prompts_sent cs1)" by blast
      from gen_rel_prompts [OF video(3) prompts_distinct(5) c1] obtain cs2 where
        c2: "calls w2 = calls w @ cs2" "TextPart video_prompt \<notin> set (prompts_sent cs2)" by blast
      from gen_rel_prompts [OF video(5) prompts_distinct(6) c2] obtain cs3 where
        c3: "calls w3 = calls w @ cs3" "TextPart video_prompt \<notin> set (prompts_sent cs3)" by blast
      have s3: "session w3 = session w"
        using gen_rel_session [OF video(1)] gen_rel_session [OF video(3)] gen_rel_session [OF video(5)]
        by simp
      from video(7) show ?thesis
      proof (cases rule: video_tab_cases)
        case absent with s3 assms(2) show ?thesis by simp
      next
        case (shown u) with s3 assms(2) c3 show ?thesis by auto
      next
        case (asked u v w4) with s3 assms(2,3) show ?thesis by simp
      qed
    qed
  qed
qed

text \<open>
  C6 as stated fails when the URL of the payload is empty once cleaned: the success branch
  stores the empty string and the search query, line 293 takes the empty string for "no
  video yet", and the next run, after a cache clear, sends the video request again.
\<close>

theorem empty_url_counterexample:
  "video_url (session (snd (run_pass video_only_remote blank_url_loads click new_world)))
     = Some (JStr []) \<and>
   video_search_query (session (snd (run_pass video_only_remote blank_url_loads click new_world)))
     = Some (JStr ''mitosis'') \<and>
   calls (snd (run_pass video_only_remote blank_url_loads click new_world))
     = four_requests [Image 1] ''Biology'' \<and>
   calls (snd (run_pass video_only_remote blank_url_loads no_click
                 (cache_clear (snd (run_pass video_only_remote blank_url_loads click new_world)))))
     = four_requests [Image 1] ''Biology'' @ four_requests [Image 1] ''Biology''"
  by (simp add: pass_defs click_def no_click_def one_file_def video_only_remote_def
                blank_url_loads_def four_requests_def)

text \<open>
  C6, as amended. In a run without a click on the button that starts from a state whose
  \<open>video_url\<close> is a non-empty string, whatever the cache holds (nothing, if it was cleared),
  no request with the video prompt is sent, and \<open>video_url\<close> is left as it was. The other
  three panels do send their requests again when the cache is empty.
\<close>

theorem video_panel_not_recomputed:
  assumes "video_url (session w) = Some url" and "truthy url" and "\<not> button inp"
    and "run_pass R L inp w = (r, w')"
  shows "(\<exists>cs. calls w' = calls w @ cs \<and> TextPart video_prompt \<notin> set (prompts_sent cs)) \<and>
         video_url (session w') = Some url"
  using assms(4)
proof (cases rule: run_pass_cases)
  case idle
  with init_session_video_url [OF assms(1)] show ?thesis by (simp add: prompts_sent_def)
next
  case (clicked c files w5) with assms(3) show ?thesis by simp
next
  case (again c files w5)
  from again(7) init_session_video_url [OF assms(1)] have "video_url (session w5) = Some url" by simp
  from results_tabs_no_video [OF again(9) this assms(2)] again(6) show ?thesis by simp
qed

theorem video_panel_not_recomputed_witness:
  "calls (snd (run_pass failing_remote str_loads no_click shown_world)) =
     [mk_request [Image 1] (fc_sys_instruction ''Biology'') fc_prompt,
      mk_request [Image 1] (quiz_sys_instruction ''Biology'') quiz_prompt,
      mk_request [Image 1] (solver_sys_instruction ''Biology'') solver_prompt] \<and>
   TextPart video_prompt \<notin> set (prompts_sent (calls (snd (run_pass failing_remote str_loads no_click shown_world)))) \<and>
   video_url (session (snd (run_pass failing_remote str_loads no_click shown_world)))
     = Some (JStr ''https://youtu.be/abc'')"
proof -
  have e: "run_pass failing_remote str_loads no_click shown_world =
             (fst (run_pass failing_remote str_loads no_click shown_world),
              snd (run_pass failing_remote str_loads no_click shown_world))" by simp
  have u: "video_url (session shown_world) = Some (JStr ''https://youtu.be/abc'')"
    by (simp add: shown_world_def)
  have t: "truthy (JStr ''https://youtu.be/abc'')" by simp
  have b: "\<not> button no_click" by (simp add: no_click_def)
  have c: "calls (snd (run_pass failing_remote str_loads no_click shown_world)) =
     [mk_request [Image 1] (fc_sys_instruction ''Biology'') fc_prompt,
      mk_request [Image 1] (quiz_sys_instruction ''Biology'') quiz_prompt,
      mk_request [Image 1] (solver_sys_instruction ''Biology'') solver_prompt]"
    by (simp add: pass_defs shown_world_def no_click_def one_file_def failing_remote_def)
  from video_panel_not_recomputed [OF u t b e] c show ?thesis
    by (simp add: shown_world_def)
qed

section \<open>A file that does not open\<close>

lemma gen_rel_miss:
  assumes "gen_rel R L (Some c) images si p w v w1" and "cache w (si, p) = None"
  shows "calls w1 = calls w @ [mk_request images si p]" and "cache w1 = (cache w)((si, p) \<mapsto> v)"
  using assms by (simp_all add: gen_rel_def)


lemma results_tabs_after_trigger:
  assumes rt: "results_tabs R L (Some c) w = (r, w')"
    and im: "image_list (session w) = Some images" and su: "subject (session w) = Some subj"
    and em: "cache w = Map.empty" and vu: "video_url (session w) = Some JNull"
  shows "image_list (session w') = Some images \<and> ready (session w') = ready (session w) \<and>
         (\<exists>n. 1 \<le> n \<and> calls w' = calls w @ take n (four_requests images subj) \<and>
              (r = None \<longrightarrow> n = 4))"
  using rt im su
proof (cases rule: results_tabs_cases)
  case (fc v1)
  from gen_rel_miss(1) [OF fc(1)] em
  have "calls w' = calls w @ take 1 (four_requests images subj)" by (simp add: four_requests_def)
  moreover have "image_list (session w') = Some images" "ready (session w') = ready (session w)"
    using gen_rel_session [OF fc(1)] im by simp_all
  ultimately show ?thesis using fc(3) by (intro conjI exI [of _ 1]) simp_all
next
  case (quiz v1 w1 v2)
  have c1: "calls w1 = calls w @ [mk_request images (fc_sys_instruction subj) fc_prompt]"
    and k1: "cache w1 = (cache w)((fc_sys_instruction subj, fc_prompt) \<mapsto> v1)"
    using gen_rel_miss [OF quiz(1)] em by simp_all
  have "cache w1 (quiz_sys_instruction subj, quiz_prompt) = None"
    using k1 em prompts_distinct by simp
  from gen_rel_miss(1) [OF quiz(3) this] c1
  have "calls w' = calls w @ take 2 (four_requests images subj)" by (simp add: four_requests_def)
  moreover have "image_list (session w') = Some images" "ready (session w') = ready (session w)"
    using gen_rel_session [OF quiz(1)] gen_rel_session [OF quiz(3)] im by simp_all
  ultimately show ?thesis using quiz(5) by (intro conjI exI [of _ 2]) simp_all
next
  case (expl v1 w1 v2 w2 v3)
  have c1: "calls w1 = calls w @ [mk_request images (fc_sys_instruction subj) fc_prompt]"
    and k1: "cache w1 = (cache w)((fc_sys_instruction subj, fc_prompt) \<mapsto> v1)"
    using gen_rel_miss [OF expl(1)] em by simp_all
  have m2: "cache w1 (quiz_sys_instruction subj, quiz_prompt) = None"
    using k1 em prompts_distinct by simp
  have c2: "calls w2 = calls w1 @ [mk_request images (quiz_sys_instruction subj) quiz_prompt]"
    and k2: "cache w2 = (cache w1)((quiz_sys_instruction subj, quiz_prompt) \<mapsto> v2)"
    using gen_rel_miss [OF expl(3) m2] by simp_all
  have "cache w2 (solver_sys_instruction subj, solver_prompt) = None"
    using k1 k2 em prompts_distinct by simp
  from gen_rel_miss(1) [OF expl(5) this] c1 c2
  have "calls w' = calls w @ take 3 (four_requests images subj)" by (simp add: four_requests_def)
  moreover have "image_list (session w') = Some images" "ready (session w') = ready (session w)"
    using gen_rel_session [OF expl(1)] gen_rel_session [OF expl(3)] gen_rel_session [OF expl(5)] im
    by simp_all
  ultimately show ?thesis using expl(7) by (intro conjI exI [of _ 3]) simp_all
next
  case (video v1 w1 v2 w2 v3 w3)
  have c1: "calls w1 = calls w @ [mk_request images (fc_sys_instruction subj) fc_prompt]"
    and k1: "cache w1 = (cache w)((fc_sys_instruction subj, fc_prompt) \<mapsto> v1)"
    using gen_rel_miss [OF video(1)] em by simp_all
  have m2: "cache w1 (quiz_sys_instruction subj, quiz_prompt) = None"
    using k1 em prompts_distinct by simp
  have c2: "calls w2 = calls w1 @ [mk_request images (quiz_sys_instruction subj) quiz_prompt]"
    and k2: "cache w2 = (cache w1)((quiz_sys_instruction subj, quiz_prompt) \<mapsto> v2)"
    using gen_rel_miss [OF video(3) m2] by simp_all
  have m3: "cache w2 (solver_sys_instruction subj, solver_prompt) = None"
    using k1 k2 em prompts_distinct by simp
  have c3: "calls w3 = calls w2 @ [mk_request images (solver_sys_instruction subj) solver_prompt]"
    and k3: "cache w3 = (cache w2)((solver_sys_instruction subj, solver_prompt) \<mapsto> v3)"
    using gen_rel_miss [OF video(5) m3] by simp_all
  have m4: "cache w3 (video_sys_instruction subj, video_prompt) = None"
    using k1 k2 k3 em prompts_distinct by simp
  have s3: "session w3 = session w"
    using gen_rel_session [OF video(1)] gen_rel_session [OF video(3)] gen_rel_session [OF video(5)]
    by simp
  from video(7) show ?thesis
  proof (cases rule: video_tab_cases)
    case absent with s3 vu show ?thesis by simp
  next
    case (shown u) with s3 vu show ?thesis by simp
  next
    case (asked u v w4)
    from gen_rel_miss(1) [OF asked(3) m4] c1 c2 c3
    have "calls w4 = calls w @ take 4 (four_requests images subj)"
      by (simp add: four_requests_def)
    moreover from store_video_effect [OF asked(4)] gen_rel_session [OF asked(3)] s3
    have "calls w' = calls w4" "image_list (session w') = image_list (session w)"
      "ready (session w') = ready (session w)" by simp_all
    ultimately show ?thesis using im by (intro conjI exI [of _ 4]) simp_all
  qed
qed




section \<open>The cache and the images\<close>

lemma fresh_for_cong:
  "fresh_for R L imgs w \<Longrightarrow> cache w' = cache w \<Longrightarrow> calls w' = calls w \<Longrightarrow> fresh_for R L imgs w'"
  by (simp add: fresh_for_def)

lemma gen_rel_fresh:
  assumes g: "gen_rel R L (Some c) imgs si p w v w1" and f: "fresh_for R L imgs w"
  shows "fresh_for R L imgs w1"
proof (cases "cache w (si, p)")
  case (Some v')
  with g have "cache w1 = cache w" "calls w1 = calls w" by (simp_all add: gen_rel_def)
  with f show ?thesis by (rule fresh_for_cong)
next
  case None
  with g have k: "cache w1 = (cache w)((si, p) \<mapsto> v)"
    and c: "calls w1 = calls w @ [mk_request imgs si p]"
    and v: "v = decode L (R (length (calls w)) (mk_request imgs si p))"
    by (simp_all add: gen_rel_def)
  show ?thesis
    unfolding fresh_for_def
  proof (intro allI impI)
    fix si' p' v' assume a: "cache w1 (si', p') = Some v'"
    show "\<exists>i<length (calls w1). calls w1 ! i = mk_request imgs si' p' \<and>
            decode L (R i (mk_request imgs si' p')) = v'"
    proof (cases "(si', p') = (si, p)")
      case True
      with a k v c show ?thesis by (intro exI [of _ "length (calls w)"]) auto
    next
      case False
      with a k have "cache w (si', p') = Some v'" by (auto split: if_splits)
      with f obtain i where "i < length (calls w)" "calls w ! i = mk_request imgs si' p'"
        "decode L (R i (mk_request imgs si' p')) = v'" unfolding fresh_for_def by blast
      with c show ?thesis by (intro exI [of _ i]) (simp add: nth_append)
    qed
  qed
qed

lemma results_tabs_fresh:
  assumes rt: "results_tabs R L (Some c) w = (r, w')" and f: "cache_fresh R L w"
  shows "cache_fresh R L w'"
proof (cases "image_list (session w)")
  case None with assms show ?thesis by (simp add: results_tabs_def)
next
  case (Some images)
  with f have ff: "fresh_for R L images w" by (simp add: cache_fresh_def)
  show ?thesis
  proof (cases "subject (session w)")
    case None with Some assms show ?thesis by (simp add: results_tabs_def)
  next
    case su: (Some subj)
    from rt Some su show ?thesis
    proof (cases rule: results_tabs_cases)
      case (fc v1)
      from gen_rel_fresh [OF fc(1) ff] gen_rel_session [OF fc(1)] Some
      show ?thesis by (simp add: cache_fresh_def)
    next
      case (quiz v1 w1 v2)
      from gen_rel_fresh [OF quiz(3) gen_rel_fresh [OF quiz(1) ff]]
        gen_rel_session [OF quiz(1)] gen_rel_session [OF quiz(3)] Some
      show ?thesis by (simp add: cache_fresh_def)
    next
      case (expl v1 w1 v2 w2 v3)
      from gen_rel_fresh [OF expl(5) gen_rel_fresh [OF expl(3) gen_rel_fresh [OF expl(1) ff]]]
        gen_rel_session [OF expl(1)] gen_rel_session [OF expl(3)] gen_rel_session [OF expl(5)] Some
      show ?thesis by (simp add: cache_fresh_def)
    next
      case (video v1 w1 v2 w2 v3 w3)
      have f3: "fresh_for R L images w3"
        by (rule gen_rel_fresh [OF video(5) gen_rel_fresh [OF video(3) gen_rel_fresh [OF video(1) ff]]])
      have s3: "session w3 = session w"
        using gen_rel_session [OF video(1)] gen_rel_session [OF video(3)] gen_rel_session [OF video(5)]
        by simp
      from video(7) show ?thesis
      proof (cases rule: video_tab_cases)
        case absent
        from fresh_for_cong [OF f3 absent(4) absent(5)] absent(3) s3 Some
        show ?thesis by (simp add: cache_fresh_def)
      next
        case (shown u)
        from fresh_for_cong [OF f3 shown(4) shown(5)] shown(3) s3 Some
        show ?thesis by (simp add: cache_fresh_def)
      next
        case (asked u v w4)
        from gen_rel_fresh [OF asked(3) f3] have f4: "fresh_for R L images w4" .
        from store_video_effect [OF asked(4)]
        have e: "cache w' = cache w4" "calls w' = calls w4"
          "image_list (session w') = image_list (session w4)" by simp_all
        from fresh_for_cong [OF f4 e(1) e(2)] e(3) gen_rel_session [OF asked(3)] s3 Some
        show ?thesis by (simp add: cache_fresh_def)
      qed
    qed
  qed
qed

lemma init_session_image_list: "image_list (init_session s) = image_list s"
  by (simp add: init_session_def Let_def)

lemma run_pass_fresh:
  assumes "run_pass R L inp w = (r, w')" and "cache_fresh R L w"
  shows "cache_fresh R L w'"
  using assms(1)
proof (cases rule: run_pass_cases)
  case idle
  with assms(2) show ?thesis
    by (auto simp: cache_fresh_def init_session_image_list split: option.splits
             intro: fresh_for_cong)
next
  case (clicked c files w5)
  have "cache_fresh R L w5" using clicked(5,7) by (simp add: cache_fresh_def fresh_for_def)
  with clicked(8) show ?thesis by (rule results_tabs_fresh)
next
  case (again c files w5)
  have "cache_fresh R L w5" using again(5,6,7) assms(2)
    by (auto simp: cache_fresh_def init_session_image_list split: option.splits
             intro: fresh_for_cong)
  with again(9) show ?thesis by (rule results_tabs_fresh)
qed

lemma reachable_alone_cache_fresh: "reachable_alone R L w \<Longrightarrow> cache_fresh R L w"
proof (induction rule: reachable_alone.induct)
  case alone_new
  show ?case by (simp add: cache_fresh_def new_world_def)
next
  case (alone_pass w inp r w')
  from run_pass_fresh [OF alone_pass(2) alone_pass(3)] show ?case .
qed

lemma clicked_pass_fresh:
  assumes "button inp" and "uploaded_files inp = Some files" and "files \<noteq> []"
    and "get_client (api_key inp) \<noteq> None" and "run_pass R L inp w = (r, w')"
  shows "image_list (session w') = Some (opened_images files) \<and> cache_fresh R L w'"
  using assms(5)
proof (cases rule: run_pass_cases)
  case idle with assms(1-4) show ?thesis by auto
next
  case (again c files' w5) with assms(1) show ?thesis by simp
next
  case (clicked c files' w5)
  from clicked(2) assms(2) have f: "files' = files" by simp
  from clicked(7) f have s5: "image_list (session w5) = Some (opened_images files)"
    "subject (session w5) = Some (subject_input inp)" "video_url (session w5) = Some JNull"
    by simp_all
  have "cache_fresh R L w5" using clicked(5) s5(1) by (simp add: cache_fresh_def fresh_for_def)
  from results_tabs_fresh [OF clicked(8) this]
       results_tabs_after_trigger [OF clicked(8) s5(1) s5(2) clicked(5) s5(3)]
  show ?thesis by simp
qed

lemma decode_failing_remote: "decode L (failing_remote i q) = JNull"
  by (simp add: decode_def failing_remote_def)

text \<open>The cache is not the session's own: when another session of the process has
  stored a value under the same subject and task, \<open>cache_fresh\<close> does not hold.\<close>

lemma shared_cache_not_fresh:
  "reachable failing_remote str_loads
     ((snd (run_pass failing_remote str_loads click new_world))
        \<lparr>cache := [(fc_sys_instruction ''Biology'', fc_prompt) \<mapsto> JStr ''x''],
         calls := calls (snd (run_pass failing_remote str_loads click new_world)) @ []\<rparr>) \<and>
   \<not> cache_fresh failing_remote str_loads
     ((snd (run_pass failing_remote str_loads click new_world))
        \<lparr>cache := [(fc_sys_instruction ''Biology'', fc_prompt) \<mapsto> JStr ''x''],
         calls := calls (snd (run_pass failing_remote str_loads click new_world)) @ []\<rparr>)"
proof
  have e: "run_pass failing_remote str_loads click new_world =
             (fst (run_pass failing_remote str_loads click new_world),
              snd (run_pass failing_remote str_loads click new_world))" by simp
  show "reachable failing_remote str_loads
     ((snd (run_pass failing_remote str_loads click new_world))
        \<lparr>cache := [(fc_sys_instruction ''Biology'', fc_prompt) \<mapsto> JStr ''x''],
         calls := calls (snd (run_pass failing_remote str_loads click new_world)) @ []\<rparr>)"
    by (rule reachable_others [OF reachable_pass [OF reachable_new e]])
next
  let ?w = "(snd (run_pass failing_remote str_loads click new_world))
        \<lparr>cache := [(fc_sys_instruction ''Biology'', fc_prompt) \<mapsto> JStr ''x''],
         calls := calls (snd (run_pass failing_remote str_loads click new_world)) @ []\<rparr>"
  have i: "image_list (session ?w) = Some [Image 1]"
    by (simp add: pass_defs click_def one_file_def failing_remote_def)
  have k: "cache ?w (fc_sys_instruction ''Biology'', fc_prompt) = Some (JStr ''x'')" by simp
  show "\<not> cache_fresh failing_remote str_loads ?w"
  proof
    assume "cache_fresh failing_remote str_loads ?w"
    with i have "fresh_for failing_remote str_loads [Image 1] ?w" by (simp add: cache_fresh_def)
    with k obtain i where
      "decode str_loads
         (failing_remote i (mk_request [Image 1] (fc_sys_instruction ''Biology'') fc_prompt))
       = JStr ''x''"
      unfolding fresh_for_def by blast
    then show False by (simp add: decode_failing_remote)
  qed
qed

text \<open>
  C2 as stated fails: the images are not part of the cache key. A request that differs
  from a cached one only in its images is answered from the cache, with the value computed
  for the other images, and nothing is sent.
\<close>

theorem stale_images_counterexample:
  "fst (generate_content image_remote xy_loads (Some (Client ''k'')) [Image 2] ''s'' ''p''
          (snd (generate_content image_remote xy_loads (Some (Client ''k'')) [Image 1] ''s'' ''p'' new_world)))
     = JStr ''x'' \<and>
   fst (generate_content image_remote xy_loads (Some (Client ''k'')) [Image 2] ''s'' ''p'' new_world)
     = JStr ''y'' \<and>
   calls (snd (generate_content image_remote xy_loads (Some (Client ''k'')) [Image 2] ''s'' ''p''
          (snd (generate_content image_remote xy_loads (Some (Client ''k'')) [Image 1] ''s'' ''p'' new_world))))
     = [mk_request [Image 1] ''s'' ''p'']"
  by (simp add: generate_content_def generate_content_body_def new_world_def image_remote_def
                xy_loads_def draw_def mk_request_def Let_def)

text \<open>
  C2, as amended. The cache key is the pair of system instruction and prompt, that is
  subject and task: a cached value is returned whatever the images of the request. What
  guards against a value computed for other notes is the button, which empties the cache
  before it stores a new image list. So at the end of a run in which the button was
  clicked, whatever the cache held before, each cached value is the decoded answer to a
  request that was sent with the new image list; and in a session that is alone in its
  process, this holds in every state the session reaches. Nothing is claimed when other
  sessions fill the same cache between two runs.
\<close>

theorem cache_holds_current_images_only:
  "(cache w (si, p) = Some v \<longrightarrow> generate_content R L c images si p w = (v, w)) \<and>
   (button inp \<and> uploaded_files inp = Some files \<and> files \<noteq> [] \<and>
    get_client (api_key inp) \<noteq> None \<and> run_pass R L inp w0 = (r, w') \<longrightarrow>
      image_list (session w') = Some (opened_images files) \<and> cache_fresh R L w') \<and>
   (reachable_alone R L w \<longrightarrow> cache_fresh R L w)"
  using generate_content_hit clicked_pass_fresh reachable_alone_cache_fresh by blast

theorem cache_holds_current_images_only_witness:
  "cache_fresh video_only_remote null_query_loads
     (snd (run_pass video_only_remote null_query_loads click new_world)) \<and>
   image_list (session (snd (run_pass video_only_remote null_query_loads click new_world)))
     = Some [Image 1] \<and>
   generate_content video_only_remote null_query_loads None [Image 2]
       (video_sys_instruction ''Biology'') video_prompt
       (snd (run_pass video_only_remote null_query_loads click new_world))
     = (JObj [(''video_search_query'', JNull), (''video_url'', JStr ''https://youtu.be/abc'')],
        snd (run_pass video_only_remote null_query_loads click new_world))"
proof -
  let ?p = "run_pass video_only_remote null_query_loads click new_world"
  have e: "?p = (fst ?p, snd ?p)" by simp
  have r: "reachable_alone video_only_remote null_query_loads (snd ?p)"
    by (rule alone_pass [OF alone_new e])
  have b: "button click \<and> uploaded_files click = Some [one_file] \<and> [one_file] \<noteq> [] \<and>
           get_client (api_key click) \<noteq> None"
    by (simp add: click_def get_client_def)
  have o: "opened_images [one_file] = [Image 1]" by (simp add: opened_images_def one_file_def)
  have k: "cache (snd ?p) (video_sys_instruction ''Biology'', video_prompt)
             = Some (JObj [(''video_search_query'', JNull), (''video_url'', JStr ''https://youtu.be/abc'')])"
    by (simp add: pass_defs click_def one_file_def video_only_remote_def null_query_loads_def)
  from cache_holds_current_images_only
         [where w = "snd ?p" and si = "video_sys_instruction ''Biology''" and p = video_prompt
            and v = "JObj [(''video_search_query'', JNull), (''video_url'', JStr ''https://youtu.be/abc'')]"
            and R = video_only_remote and L = null_query_loads and c = None and images = "[Image 2]"
            and inp = click and files = "[one_file]" and ?w0.0 = new_world
            and r = "fst ?p" and w' = "snd ?p"]
       r b e o k
  show ?thesis by simp
qed

section \<open>Failures and the cache\<close>




section \<open>Rendering a payload of the wrong shape\<close>

text \<open>
  C3 does not hold of the flashcards panel. The payload \<^verbatim>\<open>[{"front": "Q1", "back": "A1"}]\<close>
  is truthy, so line 220 lets it through; line 222 reads \<^verbatim>\<open>card['question']\<close> and raises
  \<^verbatim>\<open>KeyError\<close>. The run ends there and no warning is drawn. The explainer and video panels
  test the keys before they read them.
\<close>

theorem flashcards_missing_key_raises:
  "render_flashcards bad_cards = ([], Some (KeyError ''question'')) \<and>
   fst (flashcard_tab cards_remote cards_loads (Some (Client ''k'')) [Image 1] ''Biology'' new_world)
     = Some (KeyError ''question'') \<and>
   St_warning ''Could not generate flashcards.'' \<notin>
     set (screen (snd (flashcard_tab cards_remote cards_loads (Some (Client ''k'')) [Image 1] ''Biology''
                         new_world))) \<and>
   render_explainer (JObj [(''answer'', JStr ''A1'')])
     = ([St_warning ''Could not generate the Explainer.''], None)"
  by (simp add: render_flashcards_def render_explainer_def bad_cards_def flashcard_tab_def
                generate_content_def generate_content_body_def new_world_def cards_remote_def
                cards_loads_def draw_def draw_all_def Let_def)

end
